theory Spec2Isabelle
  imports Complex_Main "HOL-Library.Multiset"
begin

section \<open>Python values shared by the services\<close>

text \<open>
  Exceptions are values. Each constructor names the Python exception class the source raises
  (or lets through from a client library); the specification's names are noted where they differ:
  \<^item> \<open>ConnectionError\<close>: raised by \<open>publish\<close>, \<open>subscribe\<close>, \<open>_get_producer\<close> and
    \<open>consume\<close> when \<open>_connected\<close> is false (the specification's NotConnected);
  \<^item> \<open>ValueError\<close>: raised by \<open>_validate_subject\<close> (the specification's InvalidSubject) and by
    \<open>handle_brain_request\<close>;
  \<^item> \<open>TransportError\<close>: whatever the NATS or Pulsar client library raises from a send;
  \<^item> \<open>JSONDecodeError\<close>, \<open>AttributeError\<close>, \<open>TypeError\<close>, \<open>KeyError\<close>: the interpreter's own;
  \<^item> \<open>OperationalError\<close>, \<open>StatementError\<close>, \<open>DataError\<close>: what SQLAlchemy and the
    driver raise for a lost connection, a refused parameter and a refused value; the
    properties below do not depend on which of them it is;
  \<^item> \<open>LLMError\<close>: whatever \<open>llm_client.ainvoke\<close> raises, a timeout included;
  \<^item> \<open>BrainError\<close>: the plain \<open>Exception\<close> of \<open>SherlockLLM._call_brain\<close>;
  \<^item> \<open>HandlerError\<close>: whatever a user callback raises.
\<close>

datatype exn =
    ConnectionError
  | ValueError
  | TransportError
  | JSONDecodeError
  | AttributeError
  | TypeError
  | KeyError
  | OperationalError
  | StatementError
  | DataError
  | LLMError
  | BrainError
  | HandlerError

text \<open>
  A JSON value as \<open>json.dumps\<close> accepts it and \<open>json.loads\<close> returns it. A top-level payload
  or envelope is a Python \<open>dict\<close> with string keys: a map from keys to JSON values (the
  specification does not require a field order).
\<close>

datatype json =
    JNull
  | JBool bool
  | JInt int
  | JFloat real
  | JStr string
  | JArr "json list"
  | JObj "(string \<times> json) list"

type_synonym pydict = "string \<rightharpoonup> json"

text \<open>
  \<open>json.dumps(envelope).encode("utf-8")\<close> and \<open>json.loads(data.decode("utf-8"))\<close> are the
  standard library's codec. The bytes on the wire are represented by what they decode to: a JSON
  object, another JSON value, or nothing (bytes that are not JSON text).
\<close>

datatype wire_bytes =
    JsonObject pydict
  | JsonOther json
  | NotJson

datatype loaded =
    Dict pydict
  | NonDict json

definition json_dumps :: "pydict \<Rightarrow> wire_bytes" where
  "json_dumps d = JsonObject d"

fun json_loads :: "wire_bytes \<Rightarrow> exn + loaded" where
  "json_loads (JsonObject d) = Inr (Dict d)"
| "json_loads (JsonOther v) = Inr (NonDict v)"
| "json_loads NotJson = Inl JSONDecodeError"

text \<open>\<open>data.get(key, default)\<close>: only a \<open>dict\<close> has the method.\<close>

fun loaded_get :: "loaded \<Rightarrow> string \<Rightarrow> json \<Rightarrow> exn + json" where
  "loaded_get (Dict d) k dflt = Inr (case d k of None \<Rightarrow> dflt | Some v \<Rightarrow> v)"
| "loaded_get (NonDict v) k dflt = Inl AttributeError"

text \<open>Truthiness of an \<open>Optional[str]\<close> argument: \<open>None\<close> and the empty string are false.\<close>

fun truthy :: "string option \<Rightarrow> bool" where
  "truthy None = False"
| "truthy (Some s) = (s \<noteq> [])"

text \<open>\<open>subject.startswith(prefix)\<close>.\<close>

definition startswith :: "string \<Rightarrow> string \<Rightarrow> bool" where
  "startswith s p = (take (length p) s = p)"

text \<open>
  \<open>str(uuid4())\<close>: the 128-bit integer of the identifier, printed as 32 lower-case hexadecimal
  digits in the groups 8-4-4-4-12. The integer that \<open>uuid4()\<close> draws is a parameter of every
  function that calls it, and so is \<open>datetime.utcnow().isoformat()\<close>.
\<close>

definition hexdigit :: "nat \<Rightarrow> char" where
  "hexdigit d = ''0123456789abcdef'' ! (d mod 16)"

definition uuid_hex :: "nat \<Rightarrow> string" where
  "uuid_hex u = map (\<lambda>i. hexdigit (u div 16 ^ (31 - i))) [0..<32]"

definition str_uuid :: "nat \<Rightarrow> string" where
  "str_uuid u =
     (let h = uuid_hex u in
      take 8 h @ ''-'' @ take 4 (drop 8 h) @ ''-'' @ take 4 (drop 12 h) @ ''-'' @
      take 4 (drop 16 h) @ ''-'' @ drop 20 h)"

section \<open>The ephemeral bus client: \<open>arc_common/messaging/nats_client.py\<close>\<close>

text \<open>
  The fields of \<open>NATSAgentClient\<close> that \<open>publish\<close> reads, and the connection \<open>nc\<close> behind it:
  \<open>nc_alive\<close> says whether \<open>nc.publish\<close> returns (true) or raises (false), and
  \<open>nc_published\<close> lists what \<open>nc.publish\<close> has transmitted, oldest first.
\<close>

record NATSAgentClient =
  nats_service_name :: string
  nats_connected :: bool
  nc_alive :: bool
  nc_published :: "(string \<times> wire_bytes) list"

definition VALID_SUBJECT_PREFIXES :: "string list" where
  "VALID_SUBJECT_PREFIXES =
     [''agent.voice.'', ''agent.brain.'', ''agent.tts.'', ''agent.stt.'',
      ''system.health.'', ''system.service.'']"

definition validate_subject :: "string \<Rightarrow> exn + unit" where
  "validate_subject subject =
     (if \<not> list_ex (\<lambda>prefix. startswith subject prefix) VALID_SUBJECT_PREFIXES
      then Inl ValueError
      else Inr ())"

text \<open>
  \<open>_create_message_envelope\<close>: the three metadata fields (\<open>trace_id or str(uuid4())\<close>),
  \<open>event_type\<close> when it is truthy, then \<open>envelope.update(data)\<close>, in which a key of \<open>data\<close>
  replaces the envelope's. Both bus clients define the method with the same body.
\<close>

fun trace_or_uuid :: "string option \<Rightarrow> nat \<Rightarrow> string" where
  "trace_or_uuid None uuid4 = str_uuid uuid4"
| "trace_or_uuid (Some t) uuid4 = (if t \<noteq> [] then t else str_uuid uuid4)"

fun set_event_type :: "pydict \<Rightarrow> string option \<Rightarrow> pydict" where
  "set_event_type envelope None = envelope"
| "set_event_type envelope (Some e) =
     (if e \<noteq> [] then envelope(''event_type'' \<mapsto> JStr e) else envelope)"

definition create_message_envelope ::
  "string \<Rightarrow> string \<Rightarrow> nat \<Rightarrow> pydict \<Rightarrow> string option \<Rightarrow> string option \<Rightarrow> pydict" where
  "create_message_envelope service utcnow uuid4 data trace_id event_type =
     (let envelope = [''timestamp'' \<mapsto> JStr (utcnow @ ''Z''),
                      ''trace_id'' \<mapsto> JStr (trace_or_uuid trace_id uuid4),
                      ''service'' \<mapsto> JStr service];
          envelope = set_event_type envelope event_type
      in envelope ++ data)"

definition nats_create_message_envelope ::
  "NATSAgentClient \<Rightarrow> string \<Rightarrow> nat \<Rightarrow> pydict \<Rightarrow> string option \<Rightarrow> string option \<Rightarrow> pydict" where
  "nats_create_message_envelope c utcnow uuid4 data trace_id event_type =
     create_message_envelope (nats_service_name c) utcnow uuid4 data trace_id event_type"

text \<open>
  \<open>publish\<close>: the connection check comes first, then the subject check, then the envelope, its
  serialisation and \<open>nc.publish\<close>, whose exception is logged and raised again.
\<close>

definition publish ::
  "NATSAgentClient \<Rightarrow> string \<Rightarrow> nat \<Rightarrow> string \<Rightarrow> pydict \<Rightarrow> string option \<Rightarrow> string option
     \<Rightarrow> (exn + unit) \<times> NATSAgentClient" where
  "publish c utcnow uuid4 subject data trace_id event_type =
     (if \<not> nats_connected c then (Inl ConnectionError, c)
      else case validate_subject subject of
        Inl e \<Rightarrow> (Inl e, c)
      | Inr _ \<Rightarrow>
          (let envelope = nats_create_message_envelope c utcnow uuid4 data trace_id event_type;
               message_bytes = json_dumps envelope
           in if nc_alive c
              then (Inr (), c\<lparr>nc_published := nc_published c @ [(subject, message_bytes)]\<rparr>)
              else (Inl TransportError, c)))"


section \<open>The durable bus client: \<open>arc_common/messaging/pulsar_client.py\<close>\<close>

text \<open>
  What \<open>producer.send\<close> hands to the broker: the topic of the producer, the partition key when
  one is given, the bytes and the message properties.
\<close>

record pulsar_message =
  pm_topic :: string
  pm_partition_key :: "string option"
  pm_data :: wire_bytes
  pm_properties :: pydict

text \<open>
  The fields of \<open>PulsarAgentClient\<close> that \<open>produce\<close> reads: \<open>producers\<close> holds the topics
  with a cached producer. Behind the client, \<open>broker_alive\<close> says whether \<open>create_producer\<close>
  and \<open>send\<close> return (true) or raise (false), and \<open>broker_log\<close> lists what \<open>send\<close> has
  delivered to the broker, oldest first. A \<open>MessageId\<close> is the position in that list.
\<close>

record PulsarAgentClient =
  pulsar_service_name :: string
  pulsar_connected :: bool
  producers :: "string list"
  broker_alive :: bool
  broker_log :: "pulsar_message list"


definition get_producer :: "PulsarAgentClient \<Rightarrow> string \<Rightarrow> exn + PulsarAgentClient" where
  "get_producer c topic =
     (if topic \<notin> set (producers c)
      then (if \<not> pulsar_connected c then Inl ConnectionError
            else if \<not> broker_alive c then Inl TransportError
            else Inr (c\<lparr>producers := producers c @ [topic]\<rparr>))
      else Inr c)"

definition pulsar_create_message_envelope ::
  "PulsarAgentClient \<Rightarrow> string \<Rightarrow> nat \<Rightarrow> pydict \<Rightarrow> string option \<Rightarrow> string option \<Rightarrow> pydict" where
  "pulsar_create_message_envelope c utcnow uuid4 data trace_id event_type =
     create_message_envelope (pulsar_service_name c) utcnow uuid4 data trace_id event_type"

text \<open>
  \<open>produce\<close>: an exception of \<open>_get_producer\<close> propagates; \<open>properties or {}\<close> receives the
  envelope's \<open>trace_id\<close>, the service name and a truthy \<open>event_type\<close>; the partition key is
  passed only when \<open>message_key\<close> is truthy; an exception of \<open>send\<close> is logged and raised again.
\<close>

definition produce ::
  "PulsarAgentClient \<Rightarrow> string \<Rightarrow> nat \<Rightarrow> string \<Rightarrow> pydict \<Rightarrow> string option \<Rightarrow> string option
     \<Rightarrow> string option \<Rightarrow> pydict option \<Rightarrow> (exn + nat) \<times> PulsarAgentClient" where
  "produce c utcnow uuid4 topic data message_key trace_id event_type properties =
     (case get_producer c topic of
        Inl e \<Rightarrow> (Inl e, c)
      | Inr c1 \<Rightarrow>
          (let envelope = pulsar_create_message_envelope c1 utcnow uuid4 data trace_id event_type;
               message_bytes = json_dumps envelope
           in case envelope ''trace_id'' of
                None \<Rightarrow> (Inl KeyError, c1)
              | Some envelope_trace_id \<Rightarrow>
                  (let msg_properties = (case properties of None \<Rightarrow> Map.empty | Some p \<Rightarrow> p);
                       msg_properties = msg_properties(''trace_id'' \<mapsto> envelope_trace_id);
                       msg_properties = msg_properties(''service'' \<mapsto> JStr (pulsar_service_name c1));
                       msg_properties = set_event_type msg_properties event_type
                   in if broker_alive c1
                      then (Inr (length (broker_log c1)),
                            c1\<lparr>broker_log := broker_log c1 @
                               [\<lparr>pm_topic = topic,
                                 pm_partition_key = (if truthy message_key then message_key else None),
                                 pm_data = message_bytes,
                                 pm_properties = msg_properties\<rparr>]\<rparr>)
                      else (Inl TransportError, c1))))"


text \<open>
  The value a consumer callback returns is any Python object; \<open>should_ack is False\<close> holds
  for the object \<open>False\<close> alone (not for \<open>0\<close>, \<open>None\<close> or an empty string).
\<close>

datatype pyobj =
    PyNone
  | PyBool bool
  | PyInt int
  | PyStr string

datatype ack = Acknowledge | NegativeAcknowledge

text \<open>
  One turn of the \<open>while True\<close> loop of \<open>consume\<close>, after \<open>consumer.receive()\<close> has returned
  \<open>msg\<close>. The callback runs on a state of its own. \<open>acknowledge_ok msg\<close> says whether
  \<open>consumer.acknowledge(msg)\<close> returns or raises; the raise is caught by \<open>except Exception\<close>
  like any other. The result is the callback's state and the call made on the consumer for
  \<open>msg\<close>. Bytes that are not UTF-8 raise from \<open>decode\<close> into the same \<open>except Exception\<close>
  branch; they are \<open>NotJson\<close> here, with the same call on the consumer.
\<close>

definition consume_message ::
  "(pydict \<Rightarrow> pulsar_message \<Rightarrow> 's \<Rightarrow> (exn + pyobj) \<times> 's) \<Rightarrow> (pulsar_message \<Rightarrow> bool)
     \<Rightarrow> pulsar_message \<Rightarrow> 's \<Rightarrow> 's \<times> ack" where
  "consume_message callback acknowledge_ok msg s =
     (case json_loads (pm_data msg) of
        Inl e \<Rightarrow> (s, NegativeAcknowledge)
      | Inr data \<Rightarrow>
          (case loaded_get data ''trace_id'' (JStr ''unknown'') of
             Inl e \<Rightarrow> (s, NegativeAcknowledge)
           | Inr trace_id \<Rightarrow>
               (case data of
                  NonDict v \<Rightarrow> (s, NegativeAcknowledge)
                | Dict d \<Rightarrow>
                    (case callback d msg s of
                       (Inl e, s') \<Rightarrow> (s', NegativeAcknowledge)
                     | (Inr should_ack, s') \<Rightarrow>
                         if should_ack = PyBool False then (s', NegativeAcknowledge)
                         else if acknowledge_ok msg then (s', Acknowledge)
                         else (s', NegativeAcknowledge)))))"

text \<open>
  The loop over the messages that \<open>receive\<close> returns before it raises (the \<open>break\<close>): the
  calls made on the consumer, in order, with the callback's final state.
\<close>

fun consume_loop ::
  "(pydict \<Rightarrow> pulsar_message \<Rightarrow> 's \<Rightarrow> (exn + pyobj) \<times> 's) \<Rightarrow> (pulsar_message \<Rightarrow> bool)
     \<Rightarrow> pulsar_message list \<Rightarrow> 's \<Rightarrow> 's \<times> (pulsar_message \<times> ack) list" where
  "consume_loop callback acknowledge_ok [] s = (s, [])"
| "consume_loop callback acknowledge_ok (msg # rest) s =
     (case consume_message callback acknowledge_ok msg s of
        (s', a) \<Rightarrow>
          (case consume_loop callback acknowledge_ok rest s' of
             (s'', acks) \<Rightarrow> (s'', (msg, a) # acks)))"

definition consume ::
  "PulsarAgentClient \<Rightarrow> (pydict \<Rightarrow> pulsar_message \<Rightarrow> 's \<Rightarrow> (exn + pyobj) \<times> 's)
     \<Rightarrow> (pulsar_message \<Rightarrow> bool) \<Rightarrow> pulsar_message list \<Rightarrow> 's
     \<Rightarrow> exn + 's \<times> (pulsar_message \<times> ack) list" where
  "consume c callback acknowledge_ok received s =
     (if \<not> pulsar_connected c then Inl ConnectionError
      else if \<not> broker_alive c then Inl TransportError
      else Inr (consume_loop callback acknowledge_ok received s))"

section \<open>The memory store of the brain: \<open>arc-sherlock-brain/src/database.py\<close>\<close>

text \<open>
  A Python \<open>str\<close> is a list of characters here, and a character is one of the code points
  0 to 255; \<open>length\<close> counts characters, as \<open>String(255)\<close> does. In UTF-8 a code point
  below 128 takes one byte and the others take two.
\<close>

definition utf8_size :: "string \<Rightarrow> nat" where
  "utf8_size s = sum_list (map (\<lambda>c. if (of_char c :: nat) < 128 then 1 else 2) s)"

text \<open>
  A row of \<open>agents.conversations\<close> as the service's \<open>Conversation\<close> class declares it:
  \<open>id\<close> (integer primary key, autoincrement), \<open>user_id\<close> (\<open>String(255)\<close>), \<open>text\<close> and
  \<open>embedding\<close> (\<open>Vector(384)\<close>). The column \<open>created_at\<close> is read by no operation below
  and is left out. The table has no other column and no unique constraint besides the primary key.
\<close>

record Conversation =
  conv_id :: int
  conv_user_id :: string
  conv_text :: string
  conv_embedding :: "real list"

text \<open>
  The \<open>Database\<close> object with the server and the table behind it. Six fields are parameters,
  because they belong to libraries, to the driver and to the server and not to the repository:
  \<^item> \<open>embedding_model\<close> is \<open>SentenceTransformer.encode(...).tolist()\<close>;
  \<^item> \<open>to_float32\<close> is the conversion of one entry to the single precision in which a
    \<open>vector\<close> is stored and compared, \<open>None\<close> for an entry that has no finite value there;
  \<^item> \<open>l2_distance\<close> is pgvector's operator \<open><->\<close>, the Euclidean distance computed in
    floating point;
  \<^item> \<open>max_value_bytes\<close> is the server's limit on the size of one value;
  \<^item> \<open>max_limit\<close> is the largest \<open>LIMIT\<close> the driver sends (it binds the number as an
    integer of 32 or of 64 bits);
  \<^item> \<open>refused_row_draws_id\<close> says whether the server has drawn the id from the sequence by
    the time it refuses an over-long \<open>user_id\<close>: it has when the length is checked while the
    statement runs, it has not when the length is checked while the statement is planned.

  \<open>db_reachable\<close> says whether a statement is carried out by the server (true) or raises for
  a reason that is not in the values sent (false). \<open>next_id\<close> is the next value of the
  sequence behind the autoincrement column, which is a 32-bit \<open>Integer\<close>.
\<close>

record Database =
  embedding_model :: "string \<Rightarrow> real list"
  to_float32 :: "real \<Rightarrow> real option"
  l2_distance :: "real list \<Rightarrow> real list \<Rightarrow> real"
  max_value_bytes :: nat
  max_limit :: int
  refused_row_draws_id :: bool
  db_reachable :: bool
  conversations :: "Conversation list"
  next_id :: int

text \<open>
  A list bound to a \<open>Vector(384)\<close> column or compared with one: it is refused unless it has
  384 entries, each with a single-precision value, and those values are what the server keeps.
\<close>

definition to_vector :: "Database \<Rightarrow> real list \<Rightarrow> real list option" where
  "to_vector db xs = (if length xs \<noteq> 384 then None else those (map (to_float32 db) xs))"

text \<open>
  A string sent to the server as a value: PostgreSQL refuses the code point 0 in a text and a
  value beyond its size limit.
\<close>

definition value_accepted :: "Database \<Rightarrow> string \<Rightarrow> bool" where
  "value_accepted db s = (CHR 0x00 \<notin> set s \<and> utf8_size s \<le> max_value_bytes db)"

text \<open>
  A string stored in a \<open>String(255)\<close> column: PostgreSQL refuses more than 255 characters,
  unless the characters beyond the 255th are all spaces, which it cuts off.
\<close>

definition varchar255 :: "string \<Rightarrow> string option" where
  "varchar255 s =
     (if length s \<le> 255 then Some s
      else if list_all (\<lambda>c. c = CHR '' '') (drop 255 s) then Some (take 255 s)
      else None)"

definition MAX_SERIAL :: int where
  "MAX_SERIAL = 2147483647"

text \<open>
  \<open>save_conversation\<close>: one \<open>INSERT\<close> inside \<open>db.session()\<close>, which commits when the block
  returns and rolls back and raises again when it does not. The statement is refused, and the
  table left as it was, when the embedding is no vector of 384 entries, when \<open>user_id\<close> or
  \<open>text\<close> is not accepted as a value, when the sequence is exhausted and when \<open>user_id\<close>
  does not fit its column.
\<close>

definition save_conversation :: "Database \<Rightarrow> string \<Rightarrow> string \<Rightarrow> (exn + int) \<times> Database" where
  "save_conversation db user_id text =
     (let embedding = embedding_model db text
      in if \<not> db_reachable db then (Inl OperationalError, db)
         else case to_vector db embedding of
           None \<Rightarrow> (Inl StatementError, db)
         | Some stored \<Rightarrow>
             if \<not> value_accepted db user_id \<or> \<not> value_accepted db text
             then (Inl DataError, db)
             else if MAX_SERIAL < next_id db then (Inl DataError, db)
             else case varchar255 user_id of
               None \<Rightarrow>
                 (Inl DataError,
                  if refused_row_draws_id db then db\<lparr>next_id := next_id db + 1\<rparr> else db)
             | Some stored_user_id \<Rightarrow>
                 (let conversation = \<lparr>conv_id = next_id db, conv_user_id = stored_user_id,
                                         conv_text = text, conv_embedding = stored\<rparr>;
                      conversation_id = conv_id conversation
                  in (Inr conversation_id,
                      db\<lparr>conversations := conversations db @ [conversation],
                         next_id := next_id db + 1\<rparr>)))"

text \<open>
  \<open>get_context\<close>: \<open>SELECT id, text, embedding <-> :q AS distance ... WHERE user_id = :u
  ORDER BY distance LIMIT :k\<close>. The query is refused when the query's embedding is no vector of
  384 entries, when \<open>user_id\<close> is not accepted as a value, and when \<open>top_k\<close> is negative,
  beyond what the driver sends or beyond the 64-bit integer of \<open>LIMIT\<close>. Rows at the same
  distance come in an order the server chooses; the table's order is taken here.
\<close>

definition get_context ::
  "Database \<Rightarrow> string \<Rightarrow> string \<Rightarrow> int \<Rightarrow> exn + (int \<times> string \<times> real) list" where
  "get_context db user_id query_text top_k =
     (let query_embedding = embedding_model db query_text
      in if \<not> db_reachable db then Inl OperationalError
         else case to_vector db query_embedding of
           None \<Rightarrow> Inl StatementError
         | Some query_vector \<Rightarrow>
             if \<not> value_accepted db user_id then Inl DataError
             else if top_k < 0 \<or> max_limit db < top_k \<or> 2 ^ 63 \<le> top_k then Inl DataError
             else (let selected = map (\<lambda>c. (conv_id c, conv_text c,
                                              l2_distance db (conv_embedding c) query_vector))
                                    (filter (\<lambda>c. conv_user_id c = user_id) (conversations db));
                       rows = take (nat top_k)
                                (sort_key (\<lambda>(row_id, row_text, distance). distance) selected);
                       context = map (\<lambda>(row_id, row_text, distance).
                                        (row_id, row_text, distance)) rows
                   in Inr context))"


definition check_database_health :: "Database \<Rightarrow> bool" where
  "check_database_health db = db_reachable db"

section \<open>The shared model: \<open>arc_common/models/conversation.py\<close>\<close>

text \<open>
  The SDK's \<open>Conversation\<close> class, with the columns a turn is made of; \<open>embedding\<close> is
  \<open>Vector(1536)\<close> and nullable. The model, token and latency columns play no part in the
  query below and are left out.
\<close>

record SdkConversation =
  sc_id :: nat
  sc_user_id :: string
  sc_agent_id :: string
  sc_room_name :: "string option"
  sc_session_id :: "string option"
  sc_turn_index :: int
  sc_user_input :: string
  sc_agent_response :: string
  sc_embedding :: "real list option"

text \<open>
  The SQLAlchemy session handed to \<open>find_similar_conversations\<close>: whether a statement
  reaches the server, and the rows of the table.
\<close>

record SqlSession =
  session_reachable :: bool
  session_rows :: "SdkConversation list"

text \<open>
  \<open>find_similar_conversations(session, query_embedding, limit, user_id)\<close>: the filter on
  \<open>user_id\<close> is added only under \<open>if user_id:\<close>; the rows are ordered by pgvector's
  \<open>cosine_distance\<close> (a parameter), ascending, so rows whose embedding is \<open>NULL\<close> come last.
\<close>

definition with_embedding :: "SdkConversation list \<Rightarrow> (SdkConversation \<times> real list) list" where
  "with_embedding rows =
     List.map_filter (\<lambda>c. case sc_embedding c of None \<Rightarrow> None | Some e \<Rightarrow> Some (c, e)) rows"

definition find_similar_conversations ::
  "(real list \<Rightarrow> real list \<Rightarrow> real) \<Rightarrow> SqlSession \<Rightarrow> real list \<Rightarrow> int \<Rightarrow> string option
     \<Rightarrow> exn + SdkConversation list" where
  "find_similar_conversations cosine_distance session query_embedding limit user_id =
     (let query = session_rows session;
          query = (if truthy user_id then filter (\<lambda>c. Some (sc_user_id c) = user_id) query
                   else query);
          ordered = map fst (sort_key (\<lambda>(c, e). cosine_distance e query_embedding)
                                      (with_embedding query))
                    @ filter (\<lambda>c. sc_embedding c = None) query
      in if \<not> session_reachable session then Inl OperationalError
         else if length query_embedding \<noteq> 1536 then Inl StatementError
         else if limit < 0 then Inl DataError
         else Inr (take (nat limit) ordered))"

section \<open>The reasoning workflow: \<open>arc-sherlock-brain/src/graph.py\<close>\<close>

datatype message =
    HumanMessage string
  | AIMessage string
  | SystemMessage string

fun content :: "message \<Rightarrow> string" where
  "content (HumanMessage s) = s"
| "content (AIMessage s) = s"
| "content (SystemMessage s) = s"

text \<open>
  \<open>AgentState\<close> is a \<open>TypedDict\<close> with exactly these four keys; \<open>context\<close> and
  \<open>final_response\<close> are \<open>Optional\<close>.
\<close>

record AgentState =
  st_messages :: "message list"
  st_user_id :: string
  st_context :: "string list option"
  st_final_response :: "string option"

text \<open>
  \<open>retrieve_context_node\<close>: the query is the content of the last message (the empty string
  when there is none); \<open>get_context\<close> is awaited outside any \<open>try\<close>, so its exception is
  the node's.
\<close>

definition latest_message :: "AgentState \<Rightarrow> string" where
  "latest_message state =
     (if st_messages state \<noteq> [] then content (last (st_messages state)) else [])"

definition retrieve_context_node :: "AgentState \<Rightarrow> Database \<Rightarrow> exn + AgentState" where
  "retrieve_context_node state db =
     (let user_id = st_user_id state
      in case get_context db user_id (latest_message state) 5 of
           Inl e \<Rightarrow> Inl e
         | Inr context_results \<Rightarrow>
             (let context_texts = map (\<lambda>(row_id, text, distance). text) context_results
              in Inr (state\<lparr>st_context := Some context_texts\<rparr>)))"

definition newline :: string where
  "newline = [CHR 0x0A]"

text \<open>\<open>sep.join(xs)\<close>.\<close>

fun join :: "string \<Rightarrow> string list \<Rightarrow> string" where
  "join sep [] = []"
| "join sep [x] = x"
| "join sep (x # y # ys) = x @ sep @ join sep (y # ys)"

definition system_prompt :: "string \<Rightarrow> string" where
  "system_prompt context_str =
     ''You are Sherlock, an AI reasoning assistant.'' @ newline @
     ''You have access to conversation history to provide contextual responses.'' @ newline @
     newline @
     ''Previous Conversation Context:'' @ newline @
     context_str @ newline @
     newline @
     ''Respond thoughtfully and concisely based on the user's message and available context.'' @
     newline"

definition fallback_response :: string where
  "fallback_response =
     ''I apologize, but I'm having trouble processing your request right now.''"

text \<open>
  The prompt of \<open>generate_response_node\<close>: \<open>context_str\<close> lists the context, one line
  each, and \<open>prompt.format_messages\<close> puts the system message before the running messages.
\<close>

definition context_str :: "string list \<Rightarrow> string" where
  "context_str context =
     (if context \<noteq> [] then join newline (map (\<lambda>ctx. ''- '' @ ctx) context)
      else ''No prior context available.'')"

definition format_messages :: "string list \<Rightarrow> message list \<Rightarrow> message list" where
  "format_messages context messages = SystemMessage (system_prompt (context_str context)) # messages"

text \<open>
  \<open>generate_response_node\<close>: \<open>llm_client\<close> stands for \<open>ainvoke\<close> followed by reading the
  reply's text; it returns the text or raises. \<open>state.get("context", [])\<close> is \<open>None\<close> when
  the key holds \<open>None\<close>, and \<open>len(context)\<close> in the first log call then raises. The
  exception of the LLM call is caught and replaced by the fixed reply.
\<close>

definition generate_response_node ::
  "AgentState \<Rightarrow> (message list \<Rightarrow> exn + string) \<Rightarrow> exn + AgentState" where
  "generate_response_node state llm_client =
     (let messages = st_messages state in
      case st_context state of
        None \<Rightarrow> Inl TypeError
      | Some context \<Rightarrow>
          (let formatted_prompt = format_messages context messages;
               response_text = (case llm_client formatted_prompt of
                                  Inr response \<Rightarrow> response
                                | Inl e \<Rightarrow> fallback_response)
           in Inr (state\<lparr>st_final_response := Some response_text,
                          st_messages := st_messages state @ [AIMessage response_text]\<rparr>)))"

text \<open>
  The compiled graph of \<open>create_reasoning_graph\<close>: \<open>retrieve_context\<close>, then
  \<open>generate_response\<close>. LangGraph merges what a node returns into the state key by key: the
  key \<open>messages\<close> is declared \<open>Annotated[List[BaseMessage], add]\<close>, so the returned list is
  appended to the list the state holds; every other key is overwritten. The input of
  \<open>ainvoke\<close> is merged the same way into a state whose \<open>messages\<close> is empty. The graph reads
  the database as it is when it runs.
\<close>

definition merge_update :: "message list \<Rightarrow> AgentState \<Rightarrow> AgentState" where
  "merge_update held update = update\<lparr>st_messages := held @ st_messages update\<rparr>"

definition create_reasoning_graph ::
  "(message list \<Rightarrow> exn + string) \<Rightarrow> Database \<Rightarrow> AgentState \<Rightarrow> exn + AgentState" where
  "create_reasoning_graph llm_client db initial_state =
     (let state0 = merge_update [] initial_state
      in case retrieve_context_node state0 db of
           Inl e \<Rightarrow> Inl e
         | Inr update1 \<Rightarrow>
             (let state1 = merge_update (st_messages state0) update1
              in case generate_response_node state1 llm_client of
                   Inl e \<Rightarrow> Inl e
                 | Inr update2 \<Rightarrow> Inr (merge_update (st_messages state1) update2)))"

text \<open>
  What the brain process can change: its database and the durable bus. The brain holds no
  \<open>PulsarAgentClient\<close>; \<open>durable_log\<close> is the broker's list of delivered messages.
\<close>

record brain_world =
  bw_db :: Database
  durable_log :: "pulsar_message list"

text \<open>
  \<open>invoke_reasoning_graph\<close>: run the graph, read \<open>final_response\<close>, save the user's message
  and then the reply, each in a transaction of its own, and return the reply. The \<open>except\<close>
  clause logs and raises again, so what has been saved before an exception stays saved.
\<close>

definition invoke_reasoning_graph ::
  "(Database \<Rightarrow> AgentState \<Rightarrow> exn + AgentState) \<Rightarrow> brain_world \<Rightarrow> string \<Rightarrow> string
     \<Rightarrow> (exn + string) \<times> brain_world" where
  "invoke_reasoning_graph graph w user_id message =
     (let initial_state = \<lparr>st_messages = [HumanMessage message], st_user_id = user_id,
                            st_context = None, st_final_response = None\<rparr>
      in case graph (bw_db w) initial_state of
           Inl e \<Rightarrow> (Inl e, w)
         | Inr final_state \<Rightarrow>
             (case save_conversation (bw_db w) user_id message of
                (Inl e, db1) \<Rightarrow> (Inl e, w\<lparr>bw_db := db1\<rparr>)
              | (Inr user_row, db1) \<Rightarrow>
                  (case st_final_response final_state of
                     None \<Rightarrow> (Inl TypeError, w\<lparr>bw_db := db1\<rparr>)
                   | Some response \<Rightarrow>
                       (case save_conversation db1 user_id response of
                          (Inl e, db2) \<Rightarrow> (Inl e, w\<lparr>bw_db := db2\<rparr>)
                        | (Inr reply_row, db2) \<Rightarrow> (Inr response, w\<lparr>bw_db := db2\<rparr>)))))"

section \<open>The voice agent's LLM plugin: \<open>arc-scarlett-voice/src/plugins/sherlock_llm.py\<close>\<close>

text \<open>
  \<open>SherlockLLM\<close>: \<open>sl_nc\<close> says whether \<open>self.nc\<close> is set. Outside the plugin,
  \<open>nats_up\<close> says whether \<open>nats.connect\<close> returns or raises, and the brain behind the
  subject \<open>brain.request\<close> answers a request with bytes, with a timeout or with a failure of
  the transport.
\<close>

record SherlockLLM =
  sl_user_id :: string
  sl_nc :: bool

datatype nats_reply =
    Reply wire_bytes
  | RequestTimeout
  | RequestFailed

record SherlockLLMStream =
  response_text :: json
  request_text :: string

text \<open>
  The constructor of \<open>SherlockLLMStream\<close> first calls
  \<open>super().__init__(llm=None, fnc_ctx=None, chat_ctx=llm.ChatContext())\<close>; the base class
  \<open>LLMStream\<close> of the LiveKit SDK refuses the call with \<open>TypeError\<close>, so the two fields are
  never set and no stream is built.
\<close>

definition SherlockLLMStream_init :: "json \<Rightarrow> string \<Rightarrow> exn + SherlockLLMStream" where
  "SherlockLLMStream_init response request = Inl TypeError"

text \<open>A chat message of the LiveKit context: its role and its content.\<close>

definition extract_latest_message :: "(string \<times> string) list \<Rightarrow> string" where
  "extract_latest_message chat_ctx = (if chat_ctx = [] then [] else snd (last chat_ctx))"

text \<open>
  \<open>_call_brain\<close>: connect when there is no connection, send the request, parse the reply,
  raise on an \<open>error\<close> key, return \<open>response_data.get("text", "")\<close>. A reply that is JSON but
  not an object raises from the test \<open>"error" in response_data\<close> or from \<open>get\<close>; a text
  without a length raises from \<open>len(response_text)\<close> in the log call.
\<close>

definition call_brain ::
  "bool \<Rightarrow> (wire_bytes \<Rightarrow> nats_reply) \<Rightarrow> SherlockLLM \<Rightarrow> string \<Rightarrow> (exn + json) \<times> SherlockLLM" where
  "call_brain nats_up brain self text =
     (if \<not> sl_nc self \<and> \<not> nats_up then (Inl TransportError, self)
      else
        (let self = self\<lparr>sl_nc := True\<rparr>;
             request_payload = [''user_id'' \<mapsto> JStr (sl_user_id self), ''text'' \<mapsto> JStr text]
         in case brain (json_dumps request_payload) of
              RequestTimeout \<Rightarrow> (Inl BrainError, self)
            | RequestFailed \<Rightarrow> (Inl TransportError, self)
            | Reply data \<Rightarrow>
                (case json_loads data of
                   Inl e \<Rightarrow> (Inl e, self)
                 | Inr (NonDict v) \<Rightarrow> (Inl TypeError, self)
                 | Inr (Dict response_data) \<Rightarrow>
                     if response_data ''error'' \<noteq> None then (Inl BrainError, self)
                     else (case response_data ''text'' of
                             None \<Rightarrow> (Inr (JStr []), self)
                           | Some (JStr t) \<Rightarrow> (Inr (JStr t), self)
                           | Some (JArr xs) \<Rightarrow> (Inr (JArr xs), self)
                           | Some (JObj kvs) \<Rightarrow> (Inr (JObj kvs), self)
                           | Some v \<Rightarrow> (Inl TypeError, self)))))"

text \<open>
  \<open>chat\<close>: the exception of \<open>_call_brain\<close> is caught and replaced by the fixed reply; the
  stream is built after the \<open>try\<close> statement, so the exception of its constructor is
  \<open>chat\<close>'s.
\<close>

definition chat ::
  "bool \<Rightarrow> (wire_bytes \<Rightarrow> nats_reply) \<Rightarrow> SherlockLLM \<Rightarrow> (string \<times> string) list
     \<Rightarrow> (exn + SherlockLLMStream) \<times> SherlockLLM" where
  "chat nats_up brain self chat_ctx =
     (let user_message = extract_latest_message chat_ctx
      in case call_brain nats_up brain self user_message of
           (Inr text, self') \<Rightarrow> (SherlockLLMStream_init text user_message, self')
         | (Inl e, self') \<Rightarrow>
             (SherlockLLMStream_init (JStr fallback_response) user_message, self'))"

section \<open>Concrete inputs\<close>

text \<open>Clients, tables and payloads at which the properties below are evaluated.\<close>

definition voice_client :: NATSAgentClient where
  "voice_client =
     \<lparr>nats_service_name = ''arc-scarlett-voice'', nats_connected = True, nc_alive = True,
      nc_published = []\<rparr>"

definition offline_client :: NATSAgentClient where
  "offline_client = voice_client\<lparr>nats_connected := False\<rparr>"

definition brain_durable_client :: PulsarAgentClient where
  "brain_durable_client =
     \<lparr>pulsar_service_name = ''arc-sherlock-brain'', pulsar_connected = True, producers = [],
      broker_alive = True, broker_log = []\<rparr>"


text \<open>
  Instances of the library parameters. The embedding has the text's length as its first entry
  and 383 zeros; the conversion to single precision keeps the whole numbers up to \<open>2^24\<close>,
  which single precision holds exactly, and converts nothing else; the distance of the brain's
  table is the Euclidean one; a value has at most one gigabyte and \<open>LIMIT\<close> is sent as a
  32-bit integer.
\<close>

definition length_embedding :: "string \<Rightarrow> real list" where
  "length_embedding s = real (length s) # replicate 383 0"

definition whole_float32 :: "real \<Rightarrow> real option" where
  "whole_float32 x =
     (if x = real_of_int \<lfloor>x\<rfloor> \<and> \<bar>x\<bar> \<le> 16777216 then Some x else None)"

definition euclidean_distance :: "real list \<Rightarrow> real list \<Rightarrow> real" where
  "euclidean_distance a b = sqrt (sum_list (map (\<lambda>(x, y). (x - y)\<^sup>2) (zip a b)))"

definition manhattan_distance :: "real list \<Rightarrow> real list \<Rightarrow> real" where
  "manhattan_distance a b = sum_list (map (\<lambda>(x, y). \<bar>x - y\<bar>) (zip a b))"

text \<open>An empty table, and a table with two turns of \<open>u1\<close> and one of \<open>u2\<close>.\<close>

definition empty_db :: Database where
  "empty_db =
     \<lparr>embedding_model = length_embedding, to_float32 = whole_float32,
      l2_distance = euclidean_distance, max_value_bytes = 1073741824, max_limit = 2147483647,
      refused_row_draws_id = False, db_reachable = True,
      conversations = [], next_id = 1\<rparr>"

definition three_turn_db :: Database where
  "three_turn_db =
     empty_db\<lparr>conversations :=
        [\<lparr>conv_id = 1, conv_user_id = ''u1'', conv_text = ''hello there'',
          conv_embedding = length_embedding ''hello there''\<rparr>,
         \<lparr>conv_id = 2, conv_user_id = ''u2'', conv_text = ''hello'',
          conv_embedding = length_embedding ''hello''\<rparr>,
         \<lparr>conv_id = 3, conv_user_id = ''u1'', conv_text = ''hi'',
          conv_embedding = length_embedding ''hi''\<rparr>],
        next_id := 4\<rparr>"

text \<open>A session over the SDK's table with one turn of \<open>u1\<close> and one of \<open>u2\<close>.\<close>

definition turn_of_u1 :: SdkConversation where
  "turn_of_u1 =
     \<lparr>sc_id = 1, sc_user_id = ''u1'', sc_agent_id = ''arc-scarlett-voice'', sc_room_name = None,
      sc_session_id = Some ''s1'', sc_turn_index = 0, sc_user_input = ''hello'',
      sc_agent_response = ''hi'', sc_embedding = Some (replicate 1536 1)\<rparr>"

definition turn_of_u2 :: SdkConversation where
  "turn_of_u2 =
     \<lparr>sc_id = 2, sc_user_id = ''u2'', sc_agent_id = ''arc-scarlett-voice'', sc_room_name = None,
      sc_session_id = Some ''s2'', sc_turn_index = 0, sc_user_input = ''hello'',
      sc_agent_response = ''hi'', sc_embedding = Some (replicate 1536 2)\<rparr>"

definition two_user_session :: SqlSession where
  "two_user_session = \<lparr>session_reachable = True, session_rows = [turn_of_u1, turn_of_u2]\<rparr>"

text \<open>An LLM that answers, an LLM that fails, and the brain's world with an empty table.\<close>

definition tokyo_llm :: "message list \<Rightarrow> exn + string" where
  "tokyo_llm prompt = Inr ''It is 14:05 in Tokyo.''"

definition failing_llm :: "message list \<Rightarrow> exn + string" where
  "failing_llm prompt = Inl LLMError"

definition fresh_world :: brain_world where
  "fresh_world = \<lparr>bw_db = empty_db, durable_log = []\<rparr>"

definition greeting_state :: AgentState where
  "greeting_state =
     \<lparr>st_messages = [HumanMessage ''hello''], st_user_id = ''u1'', st_context = Some [],
      st_final_response = None\<rparr>"

text \<open>A durable message with bytes that are not JSON, and one with a JSON object.\<close>

definition garbled_message :: pulsar_message where
  "garbled_message =
     \<lparr>pm_topic = ''persistent://arc/events/conversations'', pm_partition_key = Some ''s1'',
      pm_data = NotJson, pm_properties = Map.empty\<rparr>"

definition turn_message :: pulsar_message where
  "turn_message =
     \<lparr>pm_topic = ''persistent://arc/events/conversations'', pm_partition_key = Some ''s1'',
      pm_data = JsonObject [''event_type'' \<mapsto> JStr ''turn_completed''],
      pm_properties = Map.empty\<rparr>"

text \<open>A brain that never answers within the timeout.\<close>

definition timing_out_brain :: "wire_bytes \<Rightarrow> nats_reply" where
  "timing_out_brain request = RequestTimeout"

text \<open>
  Consumer callbacks that count their calls: one with no \<open>return\<close> statement, one that
  returns \<open>False\<close>, one that raises and one that returns \<open>0\<close>.
\<close>

definition silent_callback :: "pydict \<Rightarrow> pulsar_message \<Rightarrow> nat \<Rightarrow> (exn + pyobj) \<times> nat" where
  "silent_callback d msg calls = (Inr PyNone, calls + 1)"

definition refusing_callback :: "pydict \<Rightarrow> pulsar_message \<Rightarrow> nat \<Rightarrow> (exn + pyobj) \<times> nat" where
  "refusing_callback d msg calls = (Inr (PyBool False), calls + 1)"

definition raising_callback :: "pydict \<Rightarrow> pulsar_message \<Rightarrow> nat \<Rightarrow> (exn + pyobj) \<times> nat" where
  "raising_callback d msg calls = (Inl HandlerError, calls + 1)"

definition zero_callback :: "pydict \<Rightarrow> pulsar_message \<Rightarrow> nat \<Rightarrow> (exn + pyobj) \<times> nat" where
  "zero_callback d msg calls = (Inr (PyInt 0), calls + 1)"

section \<open>Properties\<close>

subsection \<open>Envelopes and subjects\<close>

lemma length_uuid_hex: "length (uuid_hex u) = 32"
  by (simp add: uuid_hex_def)

lemma length_str_uuid: "length (str_uuid u) = 36"
  by (simp add: str_uuid_def Let_def length_uuid_hex)

lemma str_uuid_nonempty: "str_uuid u \<noteq> []"
  using length_str_uuid [of u] by auto

lemma trace_or_uuid_nonempty: "trace_or_uuid t u \<noteq> []"
  by (cases t) (simp_all add: str_uuid_nonempty)

lemma set_event_type_other: "k \<noteq> ''event_type'' \<Longrightarrow> set_event_type m e k = m k"
  by (cases e) simp_all


lemma envelope_trace_id:
  "data ''trace_id'' = None \<Longrightarrow>
   create_message_envelope svc now u data t e ''trace_id'' = Some (JStr (trace_or_uuid t u))"
  by (simp add: create_message_envelope_def Let_def map_add_def set_event_type_other)

lemma envelope_service:
  "data ''service'' = None \<Longrightarrow>
   create_message_envelope svc now u data t e ''service'' = Some (JStr svc)"
  by (simp add: create_message_envelope_def Let_def map_add_def set_event_type_other)


text \<open>
  C5 (as amended). On a connected client, \<open>publish\<close> with a subject outside the six prefixes
  raises \<open>ValueError\<close> (InvalidSubject) and leaves the client as it was: nothing is
  transmitted. On a client that is not connected, \<open>publish\<close> raises \<open>ConnectionError\<close>
  whatever the subject, and again transmits nothing. A subject with an allowed prefix passes
  \<open>_validate_subject\<close>, and \<open>publish\<close> never raises \<open>ValueError\<close> for it.
\<close>

theorem publish_subject_check:
  "(nats_connected c \<and> \<not> list_ex (startswith subject) VALID_SUBJECT_PREFIXES \<longrightarrow>
      publish c utcnow uuid4 subject data trace_id event_type = (Inl ValueError, c))
   \<and> (\<not> nats_connected c \<longrightarrow>
      publish c utcnow uuid4 subject data trace_id event_type = (Inl ConnectionError, c))
   \<and> (list_ex (startswith subject) VALID_SUBJECT_PREFIXES \<longrightarrow>
      validate_subject subject = Inr ()
      \<and> fst (publish c utcnow uuid4 subject data trace_id event_type) \<noteq> Inl ValueError)"
proof (intro conjI impI)
  assume "nats_connected c \<and> \<not> list_ex (startswith subject) VALID_SUBJECT_PREFIXES"
  then show "publish c utcnow uuid4 subject data trace_id event_type = (Inl ValueError, c)"
    by (simp add: publish_def validate_subject_def)
next
  assume "\<not> nats_connected c"
  then show "publish c utcnow uuid4 subject data trace_id event_type = (Inl ConnectionError, c)"
    by (simp add: publish_def)
next
  assume ok: "list_ex (startswith subject) VALID_SUBJECT_PREFIXES"
  then show "validate_subject subject = Inr ()"
    by (simp add: validate_subject_def)
  from ok show "fst (publish c utcnow uuid4 subject data trace_id event_type) \<noteq> Inl ValueError"
    by (simp add: publish_def validate_subject_def Let_def)
qed

theorem publish_subject_check_witness:
  "publish voice_client ''2025-01-01T00:00:00'' 7 ''foo.bar.baz'' [''user_id'' \<mapsto> JStr ''u1'']
      None None = (Inl ValueError, voice_client)
   \<and> publish offline_client ''2025-01-01T00:00:00'' 7 ''agent.brain.request''
      [''user_id'' \<mapsto> JStr ''u1''] None None = (Inl ConnectionError, offline_client)
   \<and> validate_subject ''agent.brain.request'' = Inr ()
   \<and> fst (publish voice_client ''2025-01-01T00:00:00'' 7 ''agent.brain.request''
           [''user_id'' \<mapsto> JStr ''u1''] None None) \<noteq> Inl ValueError"
  using
    publish_subject_check [of voice_client "''foo.bar.baz''" "''2025-01-01T00:00:00''" 7
      "[''user_id'' \<mapsto> JStr ''u1'']" None None]
    publish_subject_check [of offline_client "''agent.brain.request''" "''2025-01-01T00:00:00''" 7
      "[''user_id'' \<mapsto> JStr ''u1'']" None None]
    publish_subject_check [of voice_client "''agent.brain.request''" "''2025-01-01T00:00:00''" 7
      "[''user_id'' \<mapsto> JStr ''u1'']" None None]
  by (simp add: startswith_def VALID_SUBJECT_PREFIXES_def voice_client_def offline_client_def)

text \<open>
  The claim as stated fails on a client that is not connected: the subject \<open>foo.bar.baz\<close>
  has no allowed prefix, and the exception is \<open>ConnectionError\<close>, not \<open>ValueError\<close>.
\<close>

theorem publish_disconnected_counterexample:
  "publish offline_client ''2025-01-01T00:00:00'' 7 ''foo.bar.baz'' [''user_id'' \<mapsto> JStr ''u1'']
      None None = (Inl ConnectionError, offline_client)
   \<and> \<not> list_ex (startswith ''foo.bar.baz'') VALID_SUBJECT_PREFIXES
   \<and> Inl ConnectionError \<noteq> (Inl ValueError :: exn + unit)"
  by (simp add: publish_def startswith_def VALID_SUBJECT_PREFIXES_def offline_client_def
      voice_client_def)




lemma get_producer_service:
  "get_producer c topic = Inr c1 \<Longrightarrow>
   pulsar_service_name c1 = pulsar_service_name c \<and> broker_log c1 = broker_log c"
  by (auto simp: get_producer_def split: if_splits)

text \<open>
  C8 (as amended). For a payload that has no top-level key \<open>trace_id\<close> or \<open>service\<close>, and
  for any optional \<open>trace_id\<close> and \<open>event_type\<close> arguments: when \<open>publish\<close> returns, the
  envelope it has transmitted carries a non-empty \<open>trace_id\<close> string and the client's service
  name in \<open>service\<close>; when \<open>produce\<close> returns, so does the envelope it has sent, and the
  message properties repeat both.
\<close>

theorem emitted_envelope_metadata:
  "(publish c utcnow uuid4 subject data trace_id event_type = (Inr (), c')
      \<and> data ''trace_id'' = None \<and> data ''service'' = None \<longrightarrow>
      (\<exists>envelope tid.
          nc_published c' = nc_published c @ [(subject, json_dumps envelope)]
        \<and> envelope ''trace_id'' = Some (JStr tid) \<and> tid \<noteq> []
        \<and> envelope ''service'' = Some (JStr (nats_service_name c))))
   \<and> (produce d utcnow uuid4 topic data message_key trace_id event_type properties = (Inr mid, d')
      \<and> data ''trace_id'' = None \<and> data ''service'' = None \<longrightarrow>
      (\<exists>envelope tid m.
          broker_log d' = broker_log d @ [m]
        \<and> pm_topic m = topic \<and> pm_data m = json_dumps envelope
        \<and> envelope ''trace_id'' = Some (JStr tid) \<and> tid \<noteq> []
        \<and> envelope ''service'' = Some (JStr (pulsar_service_name d))
        \<and> pm_properties m ''trace_id'' = Some (JStr tid)
        \<and> pm_properties m ''service'' = Some (JStr (pulsar_service_name d))))"
proof (intro conjI impI)
  assume a: "publish c utcnow uuid4 subject data trace_id event_type = (Inr (), c')
      \<and> data ''trace_id'' = None \<and> data ''service'' = None"
  let ?env = "nats_create_message_envelope c utcnow uuid4 data trace_id event_type"
  from a have sent: "nc_published c' = nc_published c @ [(subject, json_dumps ?env)]"
    by (auto simp: publish_def Let_def split: if_splits sum.splits)
  from a have tr: "?env ''trace_id'' = Some (JStr (trace_or_uuid trace_id uuid4))"
    by (simp add: nats_create_message_envelope_def envelope_trace_id)
  from a have sv: "?env ''service'' = Some (JStr (nats_service_name c))"
    by (simp add: nats_create_message_envelope_def envelope_service)
  from sent tr sv trace_or_uuid_nonempty [of trace_id uuid4]
  show "\<exists>envelope tid.
          nc_published c' = nc_published c @ [(subject, json_dumps envelope)]
        \<and> envelope ''trace_id'' = Some (JStr tid) \<and> tid \<noteq> []
        \<and> envelope ''service'' = Some (JStr (nats_service_name c))"
    by blast
next
  assume a: "produce d utcnow uuid4 topic data message_key trace_id event_type properties = (Inr mid, d')
      \<and> data ''trace_id'' = None \<and> data ''service'' = None"
  then obtain d1 where d1: "get_producer d topic = Inr d1"
    by (auto simp: produce_def split: sum.splits)
  let ?env = "pulsar_create_message_envelope d1 utcnow uuid4 data trace_id event_type"
  let ?tid = "trace_or_uuid trace_id uuid4"
  from a have tr: "?env ''trace_id'' = Some (JStr ?tid)"
    by (simp add: pulsar_create_message_envelope_def envelope_trace_id)
  from a d1 have sv: "?env ''service'' = Some (JStr (pulsar_service_name d))"
    using get_producer_service [OF d1]
    by (simp add: pulsar_create_message_envelope_def envelope_service)
  let ?props = "set_event_type (((case properties of None \<Rightarrow> Map.empty | Some p \<Rightarrow> p)
       (''trace_id'' \<mapsto> JStr ?tid))(''service'' \<mapsto> JStr (pulsar_service_name d1))) event_type"
  let ?m = "\<lparr>pm_topic = topic,
             pm_partition_key = (if truthy message_key then message_key else None),
             pm_data = json_dumps ?env, pm_properties = ?props\<rparr>"
  from a d1 tr have log: "broker_log d' = broker_log d1 @ [?m]"
    by (auto simp: produce_def Let_def split: if_splits)
  have p1: "pm_properties ?m ''trace_id'' = Some (JStr ?tid)"
    by (simp add: set_event_type_other)
  have p2: "pm_properties ?m ''service'' = Some (JStr (pulsar_service_name d))"
    using get_producer_service [OF d1] by (simp add: set_event_type_other)
  have "broker_log d' = broker_log d @ [?m] \<and> pm_topic ?m = topic \<and> pm_data ?m = json_dumps ?env
        \<and> ?env ''trace_id'' = Some (JStr ?tid) \<and> ?tid \<noteq> []
        \<and> ?env ''service'' = Some (JStr (pulsar_service_name d))
        \<and> pm_properties ?m ''trace_id'' = Some (JStr ?tid)
        \<and> pm_properties ?m ''service'' = Some (JStr (pulsar_service_name d))"
    using log tr sv p1 p2 get_producer_service [OF d1] trace_or_uuid_nonempty [of trace_id uuid4]
    by simp
  then show "\<exists>envelope tid m.
          broker_log d' = broker_log d @ [m]
        \<and> pm_topic m = topic \<and> pm_data m = json_dumps envelope
        \<and> envelope ''trace_id'' = Some (JStr tid) \<and> tid \<noteq> []
        \<and> envelope ''service'' = Some (JStr (pulsar_service_name d))
        \<and> pm_properties m ''trace_id'' = Some (JStr tid)
        \<and> pm_properties m ''service'' = Some (JStr (pulsar_service_name d))"
    by blast
qed

theorem emitted_envelope_metadata_witness:
  "fst (publish voice_client ''2025-01-01T00:00:00'' 7 ''system.health.heartbeat''
          [''status'' \<mapsto> JStr ''healthy''] None (Some ''heartbeat'')) = Inr ()
   \<and> (\<exists>envelope tid.
        nc_published (snd (publish voice_client ''2025-01-01T00:00:00'' 7 ''system.health.heartbeat''
          [''status'' \<mapsto> JStr ''healthy''] None (Some ''heartbeat'')))
          = nc_published voice_client @ [(''system.health.heartbeat'', json_dumps envelope)]
        \<and> envelope ''trace_id'' = Some (JStr tid) \<and> tid \<noteq> []
        \<and> envelope ''service'' = Some (JStr ''arc-scarlett-voice''))
   \<and> fst (produce brain_durable_client ''2025-01-01T00:00:00'' 7 ''persistent://arc/events/conversations''
          [''status'' \<mapsto> JStr ''healthy''] (Some ''session-1'') None (Some ''heartbeat'') None) = Inr 0
   \<and> (\<exists>envelope tid m.
        broker_log (snd (produce brain_durable_client ''2025-01-01T00:00:00'' 7
          ''persistent://arc/events/conversations''
          [''status'' \<mapsto> JStr ''healthy''] (Some ''session-1'') None (Some ''heartbeat'') None))
          = broker_log brain_durable_client @ [m]
        \<and> pm_topic m = ''persistent://arc/events/conversations''
        \<and> pm_data m = json_dumps envelope
        \<and> envelope ''trace_id'' = Some (JStr tid) \<and> tid \<noteq> []
        \<and> envelope ''service'' = Some (JStr ''arc-sherlock-brain'')
        \<and> pm_properties m ''trace_id'' = Some (JStr tid)
        \<and> pm_properties m ''service'' = Some (JStr ''arc-sherlock-brain''))"
proof -
  let ?data = "[''status'' \<mapsto> JStr ''healthy'']"
  let ?p = "publish voice_client ''2025-01-01T00:00:00'' 7 ''system.health.heartbeat''
              ?data None (Some ''heartbeat'')"
  let ?q = "produce brain_durable_client ''2025-01-01T00:00:00'' 7
              ''persistent://arc/events/conversations'' ?data (Some ''session-1'') None
              (Some ''heartbeat'') None"
  have p1: "fst ?p = Inr ()"
    by (simp add: publish_def validate_subject_def startswith_def VALID_SUBJECT_PREFIXES_def
        voice_client_def)
  then have p: "?p = (Inr (), snd ?p)"
    by (metis prod.collapse)
  have q1: "fst ?q = Inr 0"
    by (simp add: produce_def get_producer_def pulsar_create_message_envelope_def
        create_message_envelope_def brain_durable_client_def)
  then have q: "?q = (Inr 0, snd ?q)"
    by (metis prod.collapse)
  have n1: "?data ''trace_id'' = None" and n2: "?data ''service'' = None"
    by simp_all
  have names: "nats_service_name voice_client = ''arc-scarlett-voice''"
    "pulsar_service_name brain_durable_client = ''arc-sherlock-brain''"
    by (simp_all add: voice_client_def brain_durable_client_def)
  from emitted_envelope_metadata [of voice_client "''2025-01-01T00:00:00''" 7
      "''system.health.heartbeat''" ?data None "Some ''heartbeat''" "snd ?p"
      brain_durable_client "''persistent://arc/events/conversations''" "Some ''session-1''"
      None 0 "snd ?q"]
    p q n1 n2 p1 q1 names
  show ?thesis by simp
qed

text \<open>
  The claim as stated fails for a payload with the keys \<open>trace_id\<close> and \<open>service\<close>: the
  envelope that \<open>publish\<close> transmits then carries the payload's values, here an empty
  \<open>trace_id\<close> and the name of another service.
\<close>

theorem emitted_envelope_metadata_counterexample:
  "publish voice_client ''2025-01-01T00:00:00'' 7 ''system.health.heartbeat''
      [''trace_id'' \<mapsto> JStr [], ''service'' \<mapsto> JStr ''someone-else''] (Some ''trace-123'') None
   = (Inr (), voice_client\<lparr>nc_published :=
        [(''system.health.heartbeat'',
          json_dumps (nats_create_message_envelope voice_client ''2025-01-01T00:00:00'' 7
            [''trace_id'' \<mapsto> JStr [], ''service'' \<mapsto> JStr ''someone-else'']
            (Some ''trace-123'') None))]\<rparr>)
   \<and> nats_create_message_envelope voice_client ''2025-01-01T00:00:00'' 7
        [''trace_id'' \<mapsto> JStr [], ''service'' \<mapsto> JStr ''someone-else'']
        (Some ''trace-123'') None ''trace_id'' = Some (JStr [])
   \<and> nats_create_message_envelope voice_client ''2025-01-01T00:00:00'' 7
        [''trace_id'' \<mapsto> JStr [], ''service'' \<mapsto> JStr ''someone-else'']
        (Some ''trace-123'') None ''service'' = Some (JStr ''someone-else'')
   \<and> nats_service_name voice_client = ''arc-scarlett-voice''"
  by (simp add: publish_def validate_subject_def startswith_def VALID_SUBJECT_PREFIXES_def
      voice_client_def nats_create_message_envelope_def create_message_envelope_def)

subsection \<open>The memory store\<close>

lemma map_triple_id: "map (\<lambda>(a, b, c). (a, b, c)) xs = xs"
  by (induction xs) auto

lemma get_context_Inr:
  "get_context db u q k = Inr res \<longleftrightarrow>
     db_reachable db \<and> value_accepted db u \<and> 0 \<le> k \<and> k \<le> max_limit db \<and> k < 2 ^ 63
     \<and> (\<exists>qv. to_vector db (embedding_model db q) = Some qv
          \<and> res = take (nat k) (sort_key (\<lambda>(i, t, d). d)
               (map (\<lambda>c. (conv_id c, conv_text c, l2_distance db (conv_embedding c) qv))
                    (filter (\<lambda>c. conv_user_id c = u) (conversations db)))))"
  by (auto simp: get_context_def Let_def map_triple_id split: option.splits)

lemma get_context_returns:
  "(\<exists>res. get_context db u q k = Inr res) \<longleftrightarrow>
     db_reachable db \<and> to_vector db (embedding_model db q) \<noteq> None \<and> value_accepted db u
     \<and> 0 \<le> k \<and> k \<le> max_limit db \<and> k < 2 ^ 63"
  by (auto simp: get_context_Inr)

lemma sorted_map_take: "sorted (map f xs) \<Longrightarrow> sorted (map f (take n xs))"
  by (simp add: take_map [symmetric] sorted_wrt_take)

lemma sorted_take_drop:
  assumes "sorted (map f xs)" and "a \<in> set (take n xs)" and "b \<in> set (drop n xs)"
  shows "f a \<le> f b"
proof -
  have "map f xs = map f (take n xs) @ map f (drop n xs)"
    by (simp add: map_append [symmetric] del: map_append)
  with assms(1) have "sorted (map f (take n xs) @ map f (drop n xs))"
    by simp
  with assms(2,3) show ?thesis
    by (auto simp: sorted_append)
qed

lemma mset_minus_take: "mset xs - mset (take n xs) = mset (drop n xs)"
proof -
  have "mset xs = mset (take n xs) + mset (drop n xs)"
    by (simp add: mset_append [symmetric] del: mset_append)
  then show ?thesis
    by simp
qed

lemma mset_take_subset: "mset (take n xs) \<subseteq># mset xs"
proof -
  have "mset xs = mset (take n xs) + mset (drop n xs)"
    by (simp add: mset_append [symmetric] del: mset_append)
  then show ?thesis
    by (metis mset_subset_eq_add_left)
qed

lemma those_replicate: "those (replicate n (Some x)) = Some (replicate n x)"
  by (induction n) simp_all

lemma whole_float32_of_nat: "n \<le> 16777216 \<Longrightarrow> whole_float32 (real n) = Some (real n)"
  by (simp add: whole_float32_def)

lemma to_vector_length_embedding:
  assumes "to_float32 db = whole_float32" and "length s \<le> 16777216"
  shows "to_vector db (length_embedding s) = Some (length_embedding s)"
  using assms
  by (simp add: to_vector_def length_embedding_def whole_float32_of_nat those_replicate
      whole_float32_def)

lemma euclidean_length_embedding:
  "euclidean_distance (length_embedding a) (length_embedding b)
     = \<bar>real (length a) - real (length b)\<bar>"
  by (simp add: euclidean_distance_def length_embedding_def zip_replicate sum_list_replicate)

lemma length_length_embedding: "length (length_embedding a) = 384"
  by (simp add: length_embedding_def)

lemma three_turn_db_fields:
  "db_reachable three_turn_db" "embedding_model three_turn_db = length_embedding"
  "to_float32 three_turn_db = whole_float32" "l2_distance three_turn_db = euclidean_distance"
  "max_limit three_turn_db = 2147483647" "next_id three_turn_db = 4"
  "value_accepted three_turn_db ''u1''" "value_accepted three_turn_db ''hi''"
  "value_accepted three_turn_db ''good morning''"
  by (simp_all add: three_turn_db_def empty_db_def value_accepted_def utf8_size_def)

lemma get_context_rows:
  assumes "get_context db u q k = Inr res" and "(i, t, d) \<in> set res"
  shows "\<exists>c \<in> set (conversations db).
            conv_user_id c = u \<and> i = conv_id c \<and> t = conv_text c"
proof -
  from assms(1) obtain qv where
    res: "res = take (nat k) (sort_key (\<lambda>(i, t, d). d)
               (map (\<lambda>c. (conv_id c, conv_text c, l2_distance db (conv_embedding c) qv))
                    (filter (\<lambda>c. conv_user_id c = u) (conversations db))))"
    by (auto simp: get_context_Inr)
  let ?sel = "map (\<lambda>c. (conv_id c, conv_text c, l2_distance db (conv_embedding c) qv))
                    (filter (\<lambda>c. conv_user_id c = u) (conversations db))"
  from res have "set res \<subseteq> set (sort_key (\<lambda>(i, t, d). d) ?sel)"
    by (simp only: set_take_subset)
  then have "set res \<subseteq> set ?sel"
    by simp
  with assms(2) have "(i, t, d) \<in> set ?sel"
    by (rule rev_subsetD)
  then show ?thesis
    by auto
qed

text \<open>
  C9. \<open>get_context(db, user_id, query_text, top_k)\<close> returns exactly when the database is
  reachable, the query's embedding is a vector of 384 entries, \<open>user_id\<close> is accepted as a
  value, and \<open>top_k\<close> is not negative and within what the driver sends and the 64-bit
  integer of \<open>LIMIT\<close>. Let \<open>turns\<close> be the stored turns of \<open>user_id\<close>, each as its id, its
  text and its distance to the query vector under the \<open><->\<close> operator. The result has at most
  \<open>top_k\<close> entries: \<open>top_k\<close> of them, or all of \<open>turns\<close> when there are fewer. It is in
  ascending order of the distance, every entry is one of \<open>turns\<close> and none is returned more
  often than it is stored, and no turn left out is nearer to the query than a turn returned. When
  the user has at most \<open>top_k\<close> stored turns, the result holds every one of them.
\<close>

theorem get_context_top_k:
  "((\<exists>res. get_context db u q k = Inr res) \<longleftrightarrow>
      db_reachable db \<and> to_vector db (embedding_model db q) \<noteq> None \<and> value_accepted db u
      \<and> 0 \<le> k \<and> k \<le> max_limit db \<and> k < 2 ^ 63)
   \<and> (get_context db u q k = Inr res \<and> to_vector db (embedding_model db q) = Some qv
        \<and> turns = map (\<lambda>c. (conv_id c, conv_text c, l2_distance db (conv_embedding c) qv))
                      (filter (\<lambda>c. conv_user_id c = u) (conversations db)) \<longrightarrow>
        int (length res) \<le> k
      \<and> length res = min (nat k) (length turns)
      \<and> sorted (map (\<lambda>(i, t, d). d) res)
      \<and> mset res \<subseteq># mset turns
      \<and> (\<forall>(i, t, d) \<in> set res. \<forall>(i', t', d') \<in> set_mset (mset turns - mset res). d \<le> d')
      \<and> (int (length turns) \<le> k \<longrightarrow> mset res = mset turns))"
proof (intro conjI impI)
  show "(\<exists>res. get_context db u q k = Inr res) \<longleftrightarrow>
      db_reachable db \<and> to_vector db (embedding_model db q) \<noteq> None \<and> value_accepted db u
      \<and> 0 \<le> k \<and> k \<le> max_limit db \<and> k < 2 ^ 63"
    by (rule get_context_returns)
next
  let ?key = "\<lambda>(i :: int, t :: string, d :: real). d"
  assume a: "get_context db u q k = Inr res \<and> to_vector db (embedding_model db q) = Some qv
        \<and> turns = map (\<lambda>c. (conv_id c, conv_text c, l2_distance db (conv_embedding c) qv))
                      (filter (\<lambda>c. conv_user_id c = u) (conversations db))"
  then have k: "0 \<le> k" and res: "res = take (nat k) (sort_key ?key turns)"
    by (auto simp: get_context_Inr)
  from k res show "int (length res) \<le> k"
    by simp
  from res show "length res = min (nat k) (length turns)"
    by simp
  have sorted: "sorted (map ?key (sort_key ?key turns))"
    by simp
  then show "sorted (map ?key res)"
    unfolding res by (rule sorted_map_take)
  have "mset res \<subseteq># mset (sort_key ?key turns)"
    unfolding res by (rule mset_take_subset)
  then show "mset res \<subseteq># mset turns"
    by simp
  have rest: "mset turns - mset (take (nat k) (sort_key ?key turns))
                = mset (drop (nat k) (sort_key ?key turns))"
    using mset_minus_take [of "sort_key ?key turns" "nat k"] by simp
  show "\<forall>(i, t, d) \<in> set res. \<forall>(i', t', d') \<in> set_mset (mset turns - mset res). d \<le> d'"
  proof (intro ballI, clarify)
    fix i t d i' t' d'
    assume "(i, t, d) \<in> set res" and "(i', t', d') \<in># mset turns - mset res"
    then have "(i, t, d) \<in> set (take (nat k) (sort_key ?key turns))"
      and "(i', t', d') \<in> set (drop (nat k) (sort_key ?key turns))"
      by (simp_all add: res rest)
    from sorted_take_drop [OF sorted this] show "d \<le> d'"
      by simp
  qed
  show "mset res = mset turns" if "int (length turns) \<le> k"
  proof -
    from that have "length (sort_key ?key turns) \<le> nat k"
      by simp
    then have "res = sort_key ?key turns"
      unfolding res by simp
    then show ?thesis
      by simp
  qed
qed

theorem get_context_top_k_witness:
  "get_context three_turn_db ''u1'' ''hey'' 1 = Inr [(3, ''hi'', 1)]
   \<and> to_vector three_turn_db (embedding_model three_turn_db ''hey'')
       = Some (length_embedding ''hey'')
   \<and> map (\<lambda>c. (conv_id c, conv_text c,
                l2_distance three_turn_db (conv_embedding c) (length_embedding ''hey'')))
         (filter (\<lambda>c. conv_user_id c = ''u1'') (conversations three_turn_db))
       = [(1, ''hello there'', 8), (3, ''hi'', 1)]
   \<and> length [(3 :: int, ''hi'', 1 :: real)]
       = min (nat 1) (length [(1 :: int, ''hello there'', 8 :: real), (3, ''hi'', 1)])
   \<and> mset [(3 :: int, ''hi'', 1 :: real)] \<subseteq># mset [(1, ''hello there'', 8), (3, ''hi'', 1)]
   \<and> set_mset (mset [(1 :: int, ''hello there'', 8 :: real), (3, ''hi'', 1)]
                 - mset [(3, ''hi'', 1)]) = {(1, ''hello there'', 8)}
   \<and> (1 :: real) \<le> 8
   \<and> get_context three_turn_db ''u1'' ''hey'' 5 = Inr [(3, ''hi'', 1), (1, ''hello there'', 8)]
   \<and> sorted (map (\<lambda>(i, t, d). d) [(3 :: int, ''hi'', 1 :: real), (1, ''hello there'', 8)])
   \<and> mset [(3 :: int, ''hi'', 1 :: real), (1, ''hello there'', 8)]
        = mset [(1, ''hello there'', 8), (3, ''hi'', 1)]
   \<and> (\<exists>res. get_context three_turn_db ''u1'' ''hey'' 0 = Inr res)
   \<and> \<not> (\<exists>res. get_context three_turn_db ''u1'' ''hey'' (2 ^ 63) = Inr res)
   \<and> \<not> (\<exists>res. get_context three_turn_db ''u1'' ''hey'' (- 1) = Inr res)"
proof -
  let ?turns = "[(1 :: int, ''hello there'', 8 :: real), (3, ''hi'', 1)]"
  have qv: "to_vector three_turn_db (embedding_model three_turn_db ''hey'')
              = Some (length_embedding ''hey'')"
    by (simp add: three_turn_db_fields to_vector_length_embedding)
  have turns: "?turns = map (\<lambda>c. (conv_id c, conv_text c,
                l2_distance three_turn_db (conv_embedding c) (length_embedding ''hey'')))
         (filter (\<lambda>c. conv_user_id c = ''u1'') (conversations three_turn_db))"
    by (simp add: three_turn_db_def empty_db_def euclidean_length_embedding)
  have one: "get_context three_turn_db ''u1'' ''hey'' 1 = Inr [(3, ''hi'', 1)]"
    and five: "get_context three_turn_db ''u1'' ''hey'' 5
                = Inr [(3, ''hi'', 1), (1, ''hello there'', 8)]"
    by (simp_all add: get_context_def three_turn_db_def empty_db_def to_vector_length_embedding
        euclidean_length_embedding value_accepted_def utf8_size_def sort_key_def)
  have rest: "set_mset (mset ?turns - mset [(3, ''hi'', 1)]) = {(1, ''hello there'', 8)}"
    by simp
  have fields: "db_reachable three_turn_db \<and> value_accepted three_turn_db ''u1''
                \<and> max_limit three_turn_db = 2147483647"
    by (simp add: three_turn_db_fields)
  note nearest = get_context_top_k [of three_turn_db "''u1''" "''hey''" 1 "[(3, ''hi'', 1)]"
      "length_embedding ''hey''" ?turns]
  note all = get_context_top_k [of three_turn_db "''u1''" "''hey''" 5
      "[(3, ''hi'', 1), (1, ''hello there'', 8)]" "length_embedding ''hey''" ?turns]
  note none = get_context_top_k [of three_turn_db "''u1''" "''hey''" 0]
  note large = get_context_top_k [of three_turn_db "''u1''" "''hey''" "2 ^ 63"]
  note negative = get_context_top_k [of three_turn_db "''u1''" "''hey''" "- 1"]
  from nearest one qv turns have a:
    "length [(3 :: int, ''hi'', 1 :: real)] = min (nat 1) (length ?turns)"
    "mset [(3 :: int, ''hi'', 1 :: real)] \<subseteq># mset ?turns"
    "\<forall>(i, t, d) \<in> set [(3 :: int, ''hi'', 1 :: real)].
        \<forall>(i', t', d') \<in> set_mset (mset ?turns - mset [(3, ''hi'', 1)]). d \<le> d'"
    by blast+
  from a(3) rest have b: "(1 :: real) \<le> 8"
    by simp
  have few: "int (length ?turns) \<le> 5"
    by simp
  from all five qv turns few have c:
    "sorted (map (\<lambda>(i, t, d). d) [(3 :: int, ''hi'', 1 :: real), (1, ''hello there'', 8)])"
    "mset [(3 :: int, ''hi'', 1 :: real), (1, ''hello there'', 8)] = mset ?turns"
    by blast+
  from none qv fields have d: "\<exists>res. get_context three_turn_db ''u1'' ''hey'' 0 = Inr res"
    by simp
  from large have e: "\<not> (\<exists>res. get_context three_turn_db ''u1'' ''hey'' (2 ^ 63) = Inr res)"
    by simp
  from negative have f: "\<not> (\<exists>res. get_context three_turn_db ''u1'' ''hey'' (- 1) = Inr res)"
    by simp
  from one qv turns [symmetric] a(1,2) rest b five c d e f show ?thesis
    by blast
qed

lemma manhattan_replicate:
  "manhattan_distance (replicate n x) (replicate n y) = real n * \<bar>x - y\<bar>"
  by (simp add: manhattan_distance_def zip_replicate sum_list_replicate)

lemma set_with_embedding: "(c, e) \<in> set (with_embedding rows) \<Longrightarrow> c \<in> set rows"
  unfolding with_embedding_def
  by (induction rows) (auto split: option.splits)

lemma find_similar_subset:
  assumes "find_similar_conversations cosine_distance session q k uid = Inr turns"
    and "c \<in> set turns"
  shows "c \<in> set (session_rows session) \<and> (truthy uid \<longrightarrow> Some (sc_user_id c) = uid)"
proof -
  let ?query = "if truthy uid then filter (\<lambda>c. Some (sc_user_id c) = uid) (session_rows session)
                else session_rows session"
  let ?ordered = "map fst (sort_key (\<lambda>(c, e). cosine_distance e q) (with_embedding ?query))
                  @ filter (\<lambda>c. sc_embedding c = None) ?query"
  from assms(1) have "turns = take (nat k) ?ordered"
    by (auto simp: find_similar_conversations_def Let_def split: if_splits)
  with assms(2) have "c \<in> set ?ordered"
    by (metis in_set_takeD)
  then have "c \<in> set ?query"
    by (auto dest: set_with_embedding)
  then show ?thesis
    by (auto split: if_splits)
qed

text \<open>
  C1 (as amended). Every entry that \<open>get_context(db, u, q, k)\<close> returns is the id and text of
  a stored turn whose \<open>user_id\<close> is \<open>u\<close>, and, ids being unique, no returned id is the id
  of a turn of another user. \<open>find_similar_conversations(session, q, k, u)\<close> returns only
  stored turns whose \<open>user_id\<close> is \<open>u\<close> when \<open>u\<close> is a non-empty string.
\<close>

theorem retrieval_isolation:
  "(get_context db u q k = Inr res \<longrightarrow>
      (\<forall>(i, t, d) \<in> set res. \<exists>c \<in> set (conversations db).
          conv_id c = i \<and> conv_text c = t \<and> conv_user_id c = u))
   \<and> (get_context db u q k = Inr res \<and> distinct (map conv_id (conversations db)) \<longrightarrow>
      (\<forall>c \<in> set (conversations db). conv_id c \<in> set (map fst res) \<longrightarrow> conv_user_id c = u))
   \<and> (find_similar_conversations cosine_distance session qe limit (Some u) = Inr turns
        \<and> u \<noteq> [] \<longrightarrow>
      (\<forall>c \<in> set turns. sc_user_id c = u \<and> c \<in> set (session_rows session)))"
proof (intro conjI impI)
  assume r: "get_context db u q k = Inr res"
  show "\<forall>(i, t, d) \<in> set res. \<exists>c \<in> set (conversations db).
          conv_id c = i \<and> conv_text c = t \<and> conv_user_id c = u"
  proof (intro ballI, clarify)
    fix i t d assume "(i, t, d) \<in> set res"
    from get_context_rows [OF r this]
    show "\<exists>c \<in> set (conversations db). conv_id c = i \<and> conv_text c = t \<and> conv_user_id c = u"
      by blast
  qed
next
  assume a: "get_context db u q k = Inr res \<and> distinct (map conv_id (conversations db))"
  then have r: "get_context db u q k = Inr res"
    by simp
  show "\<forall>c \<in> set (conversations db). conv_id c \<in> set (map fst res) \<longrightarrow> conv_user_id c = u"
  proof (intro ballI impI)
    fix c assume c: "c \<in> set (conversations db)" and "conv_id c \<in> set (map fst res)"
    then obtain t d where "(conv_id c, t, d) \<in> set res"
      by auto
    from get_context_rows [OF r this]
    obtain c' where c': "c' \<in> set (conversations db)" "conv_user_id c' = u"
        "conv_id c' = conv_id c"
      by auto
    from a have "inj_on conv_id (set (conversations db))"
      by (simp add: distinct_map)
    with c c' have "c' = c"
      by (auto dest: inj_onD)
    with c' show "conv_user_id c = u"
      by simp
  qed
next
  assume a: "find_similar_conversations cosine_distance session qe limit (Some u) = Inr turns
        \<and> u \<noteq> []"
  show "\<forall>c \<in> set turns. sc_user_id c = u \<and> c \<in> set (session_rows session)"
  proof
    fix c assume "c \<in> set turns"
    with a find_similar_subset [of cosine_distance session qe limit "Some u" turns c]
    show "sc_user_id c = u \<and> c \<in> set (session_rows session)"
      by simp
  qed
qed

theorem retrieval_isolation_witness:
  "get_context three_turn_db ''u1'' ''hey'' 5 = Inr [(3, ''hi'', 1), (1, ''hello there'', 8)]
   \<and> distinct (map conv_id (conversations three_turn_db))
   \<and> map conv_user_id
        (filter (\<lambda>c. conv_id c \<in> set (map fst [(3 :: int, ''hi'', 1 :: real), (1, ''hello there'', 8)]))
           (conversations three_turn_db)) = [''u1'', ''u1'']
   \<and> find_similar_conversations manhattan_distance two_user_session (replicate 1536 2) 5 (Some ''u1'')
        = Inr [turn_of_u1]
   \<and> sc_user_id turn_of_u1 = ''u1''"
proof -
  have ctx: "get_context three_turn_db ''u1'' ''hey'' 5
                = Inr [(3, ''hi'', 1), (1, ''hello there'', 8)]"
    by (simp add: get_context_def three_turn_db_def empty_db_def to_vector_length_embedding
        euclidean_length_embedding value_accepted_def utf8_size_def sort_key_def)
  have sim: "find_similar_conversations manhattan_distance two_user_session (replicate 1536 2) 5
               (Some ''u1'') = Inr [turn_of_u1]"
    by (simp add: find_similar_conversations_def two_user_session_def turn_of_u1_def
        turn_of_u2_def with_embedding_def sort_key_def)
  have rows: "distinct (map conv_id (conversations three_turn_db))"
    "map conv_user_id
        (filter (\<lambda>c. conv_id c \<in> set (map fst [(3 :: int, ''hi'', 1 :: real), (1, ''hello there'', 8)]))
           (conversations three_turn_db)) = [''u1'', ''u1'']"
    "sc_user_id turn_of_u1 = ''u1''"
    by (simp_all add: three_turn_db_def empty_db_def turn_of_u1_def)
  from retrieval_isolation [of three_turn_db "''u1''" "''hey''" 5
         "[(3, ''hi'', 1), (1, ''hello there'', 8)]" manhattan_distance two_user_session
         "replicate 1536 2" 5 "[turn_of_u1]"]
       ctx sim rows
  show ?thesis by simp
qed

text \<open>
  The claim as stated fails for \<open>find_similar_conversations\<close> when \<open>user_id\<close> is left at
  its default \<open>None\<close> (or is the empty string): the filter is skipped, and the turns
  returned belong to two different users.
\<close>

theorem retrieval_isolation_counterexample:
  "(case find_similar_conversations manhattan_distance two_user_session (replicate 1536 2) 5 None of
      Inr turns \<Rightarrow> set (map sc_user_id turns) | Inl e \<Rightarrow> {}) = {''u1'', ''u2''}
   \<and> (case find_similar_conversations manhattan_distance two_user_session (replicate 1536 2) 5
            (Some []) of
      Inr turns \<Rightarrow> set (map sc_user_id turns) | Inl e \<Rightarrow> {}) = {''u1'', ''u2''}
   \<and> ''u1'' \<noteq> ''u2''"
  by (simp add: find_similar_conversations_def two_user_session_def turn_of_u1_def
      turn_of_u2_def with_embedding_def sort_key_def manhattan_replicate insert_commute)


lemma save_conversation_succeeds:
  assumes "db_reachable db" and "to_vector db (embedding_model db text) = Some stored"
    and "value_accepted db user_id" and "value_accepted db text"
    and "next_id db \<le> MAX_SERIAL" and "varchar255 user_id = Some stored_user_id"
  shows "save_conversation db user_id text
           = (Inr (next_id db),
              db\<lparr>conversations := conversations db @
                    [\<lparr>conv_id = next_id db, conv_user_id = stored_user_id, conv_text = text,
                      conv_embedding = stored\<rparr>],
                  next_id := next_id db + 1\<rparr>)"
  using assms by (simp add: save_conversation_def Let_def)







subsection \<open>The reasoning workflow\<close>

lemma graph_retrieval_failure:
  assumes "get_context db user_id message 5 = Inl e"
  shows "create_reasoning_graph llm_client db
           \<lparr>st_messages = [HumanMessage message], st_user_id = user_id, st_context = None,
            st_final_response = None\<rparr> = Inl e"
  using assms
  by (simp add: create_reasoning_graph_def merge_update_def retrieve_context_node_def
      latest_message_def)

text \<open>
  C6 (as amended). When the retrieval query of \<open>retrieve_context_node\<close> raises, the stage
  raises the same exception and it reaches the caller of the workflow:
  \<open>invoke_reasoning_graph\<close> raises it and changes nothing. When the query returns, the stage
  returns with the texts of the rows found as its context: the empty list when there are none.
\<close>

theorem retrieval_failure_propagates:
  "(get_context db (st_user_id state) (latest_message state) 5 = Inl e \<longrightarrow>
      retrieve_context_node state db = Inl e)
   \<and> (get_context db (st_user_id state) (latest_message state) 5 = Inr rows \<longrightarrow>
      retrieve_context_node state db
        = Inr (state\<lparr>st_context := Some (map (\<lambda>(row_id, text, distance). text) rows)\<rparr>))
   \<and> (get_context (bw_db w) user_id message 5 = Inl e \<longrightarrow>
      invoke_reasoning_graph (create_reasoning_graph llm_client) w user_id message = (Inl e, w))"
proof (intro conjI impI)
  assume "get_context db (st_user_id state) (latest_message state) 5 = Inl e"
  then show "retrieve_context_node state db = Inl e"
    by (simp add: retrieve_context_node_def)
next
  assume "get_context db (st_user_id state) (latest_message state) 5 = Inr rows"
  then show "retrieve_context_node state db
        = Inr (state\<lparr>st_context := Some (map (\<lambda>(row_id, text, distance). text) rows)\<rparr>)"
    by (simp add: retrieve_context_node_def)
next
  assume "get_context (bw_db w) user_id message 5 = Inl e"
  then have "create_reasoning_graph llm_client (bw_db w)
           \<lparr>st_messages = [HumanMessage message], st_user_id = user_id, st_context = None,
            st_final_response = None\<rparr> = Inl e"
    by (rule graph_retrieval_failure)
  then show "invoke_reasoning_graph (create_reasoning_graph llm_client) w user_id message = (Inl e, w)"
    by (simp add: invoke_reasoning_graph_def)
qed

lemma get_context_unreachable:
  "\<not> db_reachable db \<Longrightarrow> get_context db u q k = Inl OperationalError"
  by (simp add: get_context_def)

theorem retrieval_failure_propagates_witness:
  "get_context (empty_db\<lparr>db_reachable := False\<rparr>) (st_user_id greeting_state)
     (latest_message greeting_state) 5 = Inl OperationalError
   \<and> retrieve_context_node greeting_state (empty_db\<lparr>db_reachable := False\<rparr>) = Inl OperationalError
   \<and> get_context empty_db (st_user_id greeting_state) (latest_message greeting_state) 5 = Inr []
   \<and> retrieve_context_node greeting_state empty_db = Inr (greeting_state\<lparr>st_context := Some []\<rparr>)
   \<and> invoke_reasoning_graph (create_reasoning_graph tokyo_llm)
        (fresh_world\<lparr>bw_db := empty_db\<lparr>db_reachable := False\<rparr>\<rparr>) ''u1'' ''hello''
      = (Inl OperationalError, fresh_world\<lparr>bw_db := empty_db\<lparr>db_reachable := False\<rparr>\<rparr>)"
proof -
  let ?down = "empty_db\<lparr>db_reachable := False\<rparr>"
  have down: "get_context ?down (st_user_id greeting_state) (latest_message greeting_state) 5
                = Inl OperationalError"
    "get_context (bw_db (fresh_world\<lparr>bw_db := ?down\<rparr>)) ''u1'' ''hello'' 5 = Inl OperationalError"
    by (simp_all add: get_context_unreachable)
  have up: "get_context empty_db (st_user_id greeting_state) (latest_message greeting_state) 5 = Inr []"
    by (simp add: get_context_def empty_db_def to_vector_length_embedding value_accepted_def
        utf8_size_def greeting_state_def latest_message_def)
  from retrieval_failure_propagates [of ?down greeting_state OperationalError "[]"
         "fresh_world\<lparr>bw_db := ?down\<rparr>" "''u1''" "''hello''" tokyo_llm]
       retrieval_failure_propagates [of empty_db greeting_state OperationalError "[]"
         "fresh_world\<lparr>bw_db := ?down\<rparr>" "''u1''" "''hello''" tokyo_llm]
       down up
  show ?thesis by simp
qed

text \<open>
  The claim as stated fails when the database cannot be reached: the stage does not return
  with an empty context, it raises \<open>OperationalError\<close>, and so does the workflow.
\<close>

theorem retrieval_failure_counterexample:
  "retrieve_context_node greeting_state (empty_db\<lparr>db_reachable := False\<rparr>) = Inl OperationalError
   \<and> invoke_reasoning_graph (create_reasoning_graph tokyo_llm)
        (fresh_world\<lparr>bw_db := empty_db\<lparr>db_reachable := False\<rparr>\<rparr>) ''u1'' ''hello''
      = (Inl OperationalError, fresh_world\<lparr>bw_db := empty_db\<lparr>db_reachable := False\<rparr>\<rparr>)"
  by (simp add: retrieve_context_node_def get_context_unreachable invoke_reasoning_graph_def
      create_reasoning_graph_def merge_update_def)

lemma generate_response_node_failure:
  assumes "st_context state = Some ctx"
    and "llm_client (format_messages ctx (st_messages state)) = Inl e"
  shows "generate_response_node state llm_client
           = Inr (state\<lparr>st_final_response := Some fallback_response,
                        st_messages := st_messages state @ [AIMessage fallback_response]\<rparr>)"
  using assms by (simp add: generate_response_node_def)

lemma generate_response_node_success:
  assumes "st_context state = Some ctx"
    and "llm_client (format_messages ctx (st_messages state)) = Inr response"
  shows "generate_response_node state llm_client
           = Inr (state\<lparr>st_final_response := Some response,
                        st_messages := st_messages state @ [AIMessage response]\<rparr>)"
  using assms by (simp add: generate_response_node_def)

text \<open>
  C3 (as amended). When the LLM call of \<open>generate_response_node\<close> raises (a failure or a
  timeout), the stage returns with \<open>final_response\<close> equal to the fixed reply and with that
  reply appended to \<open>messages\<close> as the AI message; nothing else in the state changes, and the
  state returned is the one returned when the LLM itself answers with the fixed reply: it
  carries no mark of degradation.
\<close>

theorem llm_failure_fallback:
  "(st_context state = Some ctx \<and> llm_client (format_messages ctx (st_messages state)) = Inl e \<longrightarrow>
      generate_response_node state llm_client
        = Inr (state\<lparr>st_final_response := Some fallback_response,
                     st_messages := st_messages state @ [AIMessage fallback_response]\<rparr>)
      \<and> generate_response_node state llm_client
        = generate_response_node state (\<lambda>prompt. Inr fallback_response))
   \<and> fallback_response
        = ''I apologize, but I'm having trouble processing your request right now.''"
proof (intro conjI impI)
  assume a: "st_context state = Some ctx \<and> llm_client (format_messages ctx (st_messages state)) = Inl e"
  then show failed: "generate_response_node state llm_client
        = Inr (state\<lparr>st_final_response := Some fallback_response,
                     st_messages := st_messages state @ [AIMessage fallback_response]\<rparr>)"
    by (simp add: generate_response_node_failure)
  from a have "generate_response_node state (\<lambda>prompt. Inr fallback_response)
        = Inr (state\<lparr>st_final_response := Some fallback_response,
                     st_messages := st_messages state @ [AIMessage fallback_response]\<rparr>)"
    by (simp add: generate_response_node_success)
  with failed show "generate_response_node state llm_client
        = generate_response_node state (\<lambda>prompt. Inr fallback_response)"
    by simp
next
  show "fallback_response
        = ''I apologize, but I'm having trouble processing your request right now.''"
    by (simp add: fallback_response_def)
qed

theorem llm_failure_fallback_witness:
  "st_context greeting_state = Some []
   \<and> failing_llm (format_messages [] (st_messages greeting_state)) = Inl LLMError
   \<and> generate_response_node greeting_state failing_llm
        = Inr \<lparr>st_messages = [HumanMessage ''hello'', AIMessage fallback_response],
               st_user_id = ''u1'', st_context = Some [],
               st_final_response = Some fallback_response\<rparr>
   \<and> generate_response_node greeting_state failing_llm
        = generate_response_node greeting_state (\<lambda>prompt. Inr fallback_response)"
proof -
  have ctx: "st_context greeting_state = Some []"
    and fails: "failing_llm (format_messages [] (st_messages greeting_state)) = Inl LLMError"
    by (simp_all add: greeting_state_def failing_llm_def)
  from llm_failure_fallback [of greeting_state "[]" failing_llm LLMError] ctx fails
  have "generate_response_node greeting_state failing_llm
        = Inr (greeting_state\<lparr>st_final_response := Some fallback_response,
                 st_messages := st_messages greeting_state @ [AIMessage fallback_response]\<rparr>)"
    and same: "generate_response_node greeting_state failing_llm
        = generate_response_node greeting_state (\<lambda>prompt. Inr fallback_response)"
    by blast+
  then have "generate_response_node greeting_state failing_llm
        = Inr \<lparr>st_messages = [HumanMessage ''hello'', AIMessage fallback_response],
               st_user_id = ''u1'', st_context = Some [],
               st_final_response = Some fallback_response\<rparr>"
    by (simp add: greeting_state_def)
  with ctx fails same show ?thesis
    by blast
qed

lemma graph_result:
  assumes "get_context db user_id message 5 = Inr rows"
  shows "create_reasoning_graph llm_client db
           \<lparr>st_messages = [HumanMessage message], st_user_id = user_id, st_context = None,
            st_final_response = None\<rparr>
         = (let context_texts = map (\<lambda>(row_id, text, distance). text) rows;
                held = [HumanMessage message, HumanMessage message];
                response = (case llm_client (format_messages context_texts held) of
                              Inr r \<Rightarrow> r | Inl e \<Rightarrow> fallback_response)
            in Inr \<lparr>st_messages = held @ held @ [AIMessage response], st_user_id = user_id,
                     st_context = Some context_texts, st_final_response = Some response\<rparr>)"
  using assms
  by (simp add: create_reasoning_graph_def merge_update_def retrieve_context_node_def
      latest_message_def generate_response_node_def Let_def)

lemma graph_result_shape:
  assumes "create_reasoning_graph llm_client db
           \<lparr>st_messages = [HumanMessage message], st_user_id = user_id, st_context = None,
            st_final_response = None\<rparr> = Inr final"
  shows "\<exists>response. st_final_response final = Some response
           \<and> st_messages final
               = [HumanMessage message, HumanMessage message, HumanMessage message,
                  HumanMessage message] @ [AIMessage response]"
proof (cases "get_context db user_id message 5")
  case (Inl e)
  with assms show ?thesis
    by (simp add: create_reasoning_graph_def merge_update_def retrieve_context_node_def
        latest_message_def)
next
  case (Inr rows)
  from graph_result [OF Inr, of llm_client] assms show ?thesis
    by (auto simp: Let_def)
qed

lemma to_vector_update:
  "to_vector (db\<lparr>conversations := rows, next_id := n\<rparr>) xs = to_vector db xs"
  by (simp add: to_vector_def)

lemma value_accepted_update:
  "value_accepted (db\<lparr>conversations := rows, next_id := n\<rparr>) s = value_accepted db s"
  by (simp add: value_accepted_def)


lemma invoke_returns:
  assumes "create_reasoning_graph llm_client (bw_db w)
             \<lparr>st_messages = [HumanMessage message], st_user_id = user_id, st_context = None,
              st_final_response = None\<rparr> = Inr final"
    and "st_final_response final = Some response"
    and "db_reachable (bw_db w)"
    and "to_vector (bw_db w) (embedding_model (bw_db w) message) = Some stored_message"
    and "to_vector (bw_db w) (embedding_model (bw_db w) response) = Some stored_response"
    and "varchar255 user_id = Some stored_user_id"
    and "value_accepted (bw_db w) user_id" and "value_accepted (bw_db w) message"
    and "value_accepted (bw_db w) response" and "next_id (bw_db w) + 1 \<le> MAX_SERIAL"
  shows "invoke_reasoning_graph (create_reasoning_graph llm_client) w user_id message
           = (Inr response,
              w\<lparr>bw_db := (bw_db w)\<lparr>conversations := conversations (bw_db w) @
                    [\<lparr>conv_id = next_id (bw_db w), conv_user_id = stored_user_id,
                      conv_text = message, conv_embedding = stored_message\<rparr>,
                     \<lparr>conv_id = next_id (bw_db w) + 1, conv_user_id = stored_user_id,
                      conv_text = response, conv_embedding = stored_response\<rparr>],
                  next_id := next_id (bw_db w) + 2\<rparr>\<rparr>)"
proof -
  let ?db = "bw_db w"
  let ?db1 = "?db\<lparr>conversations := conversations ?db @
                    [\<lparr>conv_id = next_id ?db, conv_user_id = stored_user_id, conv_text = message,
                      conv_embedding = stored_message\<rparr>],
                  next_id := next_id ?db + 1\<rparr>"
  from assms have s1: "save_conversation ?db user_id message = (Inr (next_id ?db), ?db1)"
    by (simp add: save_conversation_succeeds)
  from assms have "db_reachable ?db1"
    "to_vector ?db1 (embedding_model ?db1 response) = Some stored_response"
    "value_accepted ?db1 user_id" "value_accepted ?db1 response" "next_id ?db1 \<le> MAX_SERIAL"
    by (simp_all add: to_vector_update value_accepted_update)
  from save_conversation_succeeds [OF this assms(6)]
  have s2: "save_conversation ?db1 user_id response
              = (Inr (next_id ?db + 1),
                 ?db\<lparr>conversations := conversations ?db @
                    [\<lparr>conv_id = next_id ?db, conv_user_id = stored_user_id,
                      conv_text = message, conv_embedding = stored_message\<rparr>,
                     \<lparr>conv_id = next_id ?db + 1, conv_user_id = stored_user_id,
                      conv_text = response, conv_embedding = stored_response\<rparr>],
                  next_id := next_id ?db + 2\<rparr>)"
    by simp
  from assms(1,2) s1 s2 show ?thesis
    by (simp add: invoke_reasoning_graph_def)
qed



lemma fresh_world_pass:
  assumes "response = (case llm_client (format_messages []
                               [HumanMessage message, HumanMessage message]) of
                          Inr r \<Rightarrow> r | Inl e \<Rightarrow> fallback_response)"
    and "value_accepted empty_db message" and "value_accepted empty_db response"
    and "length message \<le> 16777216" and "length response \<le> 16777216"
  shows "invoke_reasoning_graph (create_reasoning_graph llm_client) fresh_world ''u1'' message
     = (Inr response,
        fresh_world\<lparr>bw_db := empty_db\<lparr>conversations :=
               [\<lparr>conv_id = 1, conv_user_id = ''u1'', conv_text = message,
                 conv_embedding = length_embedding message\<rparr>,
                \<lparr>conv_id = 2, conv_user_id = ''u1'', conv_text = response,
                 conv_embedding = length_embedding response\<rparr>],
               next_id := 3\<rparr>\<rparr>)"
proof -
  have fields: "db_reachable empty_db" "embedding_model empty_db = length_embedding"
    "to_float32 empty_db = whole_float32"
    "conversations empty_db = []" "next_id empty_db = 1" "bw_db fresh_world = empty_db"
    "max_limit empty_db = 2147483647" "value_accepted empty_db ''u1''"
    by (simp_all add: empty_db_def fresh_world_def value_accepted_def utf8_size_def)
  have ctx: "get_context (bw_db fresh_world) ''u1'' message 5 = Inr []"
    using assms(4) by (simp add: get_context_def fields to_vector_length_embedding)
  from graph_result [OF ctx, of llm_client] assms(1)
  have graph: "create_reasoning_graph llm_client (bw_db fresh_world)
           \<lparr>st_messages = [HumanMessage message], st_user_id = ''u1'', st_context = None,
            st_final_response = None\<rparr>
         = Inr \<lparr>st_messages = [HumanMessage message, HumanMessage message, HumanMessage message,
                   HumanMessage message, AIMessage response],
                st_user_id = ''u1'', st_context = Some [], st_final_response = Some response\<rparr>"
    by (simp add: Let_def)
  have stored: "to_vector (bw_db fresh_world) (embedding_model (bw_db fresh_world) message)
                  = Some (length_embedding message)"
    "to_vector (bw_db fresh_world) (embedding_model (bw_db fresh_world) response)
                  = Some (length_embedding response)"
    using assms(4,5) by (simp_all add: fields to_vector_length_embedding)
  have rest: "db_reachable (bw_db fresh_world)" "varchar255 ''u1'' = Some ''u1''"
    "value_accepted (bw_db fresh_world) ''u1''" "value_accepted (bw_db fresh_world) message"
    "value_accepted (bw_db fresh_world) response" "next_id (bw_db fresh_world) + 1 \<le> MAX_SERIAL"
    using assms(2,3) by (simp_all add: fields varchar255_def MAX_SERIAL_def)
  have reply: "st_final_response
                 \<lparr>st_messages = [HumanMessage message, HumanMessage message,
                                  HumanMessage message, HumanMessage message,
                                  AIMessage response],
                  st_user_id = ''u1'', st_context = Some [],
                  st_final_response = Some response\<rparr> = Some response"
    by simp
  from invoke_returns [OF graph reply rest(1) stored rest(2-6)]
  show ?thesis
    by (simp add: fields)
qed




text \<open>
  The claim as stated fails in its last part. The state has the four keys of \<open>AgentState\<close>
  and none of them is \<open>reasoning_degraded\<close>: after a failed LLM call the stage returns the
  state shown here, the same as after an LLM call that answers with the fixed reply, and the
  workflow returns the same reply and leaves the same rows in both cases.
\<close>

theorem llm_failure_counterexample:
  "generate_response_node greeting_state failing_llm
     = Inr \<lparr>st_messages = [HumanMessage ''hello'', AIMessage fallback_response],
            st_user_id = ''u1'', st_context = Some [],
            st_final_response = Some fallback_response\<rparr>
   \<and> generate_response_node greeting_state failing_llm
     = generate_response_node greeting_state (\<lambda>prompt. Inr fallback_response)
   \<and> fst (invoke_reasoning_graph (create_reasoning_graph failing_llm) fresh_world ''u1'' ''hello'')
     = Inr fallback_response
   \<and> invoke_reasoning_graph (create_reasoning_graph failing_llm) fresh_world ''u1'' ''hello''
     = invoke_reasoning_graph (create_reasoning_graph (\<lambda>prompt. Inr fallback_response))
         fresh_world ''u1'' ''hello''"
proof -
  have accepted: "value_accepted empty_db ''hello''" "value_accepted empty_db fallback_response"
    by (simp_all add: value_accepted_def utf8_size_def empty_db_def fallback_response_def)
  have short: "length ''hello'' \<le> 16777216" "length fallback_response \<le> 16777216"
    by (simp_all add: fallback_response_def)
  have failing: "fallback_response
        = (case failing_llm (format_messages [] [HumanMessage ''hello'', HumanMessage ''hello'']) of
             Inr r \<Rightarrow> r | Inl e \<Rightarrow> fallback_response)"
    and fixed: "fallback_response
        = (case (\<lambda>prompt. Inr fallback_response)
                  (format_messages [] [HumanMessage ''hello'', HumanMessage ''hello'']) of
             Inr r \<Rightarrow> r | Inl e \<Rightarrow> fallback_response)"
    by (simp_all add: failing_llm_def)
  note fresh_world_pass [where llm_client = failing_llm and message = "''hello''"
        and response = fallback_response, OF failing accepted short]
    fresh_world_pass [where llm_client = "\<lambda>prompt. Inr fallback_response"
        and message = "''hello''" and response = fallback_response, OF fixed accepted short]
  then show ?thesis
    by (simp add: generate_response_node_def greeting_state_def failing_llm_def)
qed

subsection \<open>The voice agent's plugin\<close>

text \<open>
  The call to the brain raises when the brain does not answer in time, and \<open>chat\<close> replaces
  the exception by the fixed reply; the stream that should carry the reply is then never built,
  whatever the brain has answered.
\<close>

lemma call_brain_timeout:
  "fst (call_brain True timing_out_brain \<lparr>sl_user_id = ''u1'', sl_nc = True\<rparr> ''hello'')
     = Inl BrainError"
  by (simp add: call_brain_def timing_out_brain_def)

lemma chat_raises: "fst (chat nats_up brain self chat_ctx) = Inl TypeError"
  by (simp add: chat_def SherlockLLMStream_init_def Let_def split: prod.splits sum.splits)

subsection \<open>The consume loop of the durable bus\<close>

lemma consume_message_object:
  assumes "pm_data msg = JsonObject d"
  shows "consume_message callback acknowledge_ok msg s
           = (case callback d msg s of
                (Inl e, s') \<Rightarrow> (s', NegativeAcknowledge)
              | (Inr should_ack, s') \<Rightarrow>
                  if should_ack = PyBool False then (s', NegativeAcknowledge)
                  else if acknowledge_ok msg then (s', Acknowledge)
                  else (s', NegativeAcknowledge))"
  using assms by (simp add: consume_message_def)

lemma consume_message_undecoded:
  assumes "\<forall>d. pm_data msg \<noteq> JsonObject d"
  shows "consume_message callback acknowledge_ok msg s = (s, NegativeAcknowledge)"
  using assms by (cases "pm_data msg") (simp_all add: consume_message_def)

lemma consume_loop_messages:
  "map fst (snd (consume_loop callback acknowledge_ok msgs s)) = msgs"
proof (induction msgs arbitrary: s)
  case Nil
  show ?case by simp
next
  case (Cons msg rest)
  obtain s' a where step: "consume_message callback acknowledge_ok msg s = (s', a)"
    by (cases "consume_message callback acknowledge_ok msg s")
  obtain s'' acks where tail: "consume_loop callback acknowledge_ok rest s' = (s'', acks)"
    by (cases "consume_loop callback acknowledge_ok rest s'")
  from Cons.IH [of s'] tail have "map fst acks = rest"
    by simp
  with step tail show ?case
    by simp
qed

text \<open>
  C10 (as amended). In the consume loop a message is negatively acknowledged exactly when its
  bytes do not decode to a JSON object (the handler is then not called), or the handler raises,
  or the handler returns the value \<open>False\<close>, or the call that acknowledges it raises. In
  every other case, that is for any other value the handler returns, \<open>None\<close> included, the
  message is acknowledged. The loop makes one of the two calls for every message it receives,
  in the order of receipt.
\<close>

theorem consume_acknowledgement:
  "(snd (consume_message callback acknowledge_ok msg s) = NegativeAcknowledge \<longleftrightarrow>
      (\<forall>d. pm_data msg \<noteq> JsonObject d)
      \<or> (\<exists>d. pm_data msg = JsonObject d
            \<and> ((\<exists>e. fst (callback d msg s) = Inl e)
               \<or> fst (callback d msg s) = Inr (PyBool False)
               \<or> \<not> acknowledge_ok msg)))
   \<and> (snd (consume_message callback acknowledge_ok msg s) = Acknowledge \<longleftrightarrow>
      (\<exists>d r. pm_data msg = JsonObject d \<and> fst (callback d msg s) = Inr r
             \<and> r \<noteq> PyBool False \<and> acknowledge_ok msg))
   \<and> ((\<forall>d. pm_data msg \<noteq> JsonObject d) \<longrightarrow>
        fst (consume_message callback acknowledge_ok msg s) = s)
   \<and> map fst (snd (consume_loop callback acknowledge_ok msgs s)) = msgs"
proof (cases "\<exists>d. pm_data msg = JsonObject d")
  case True
  then obtain d where d: "pm_data msg = JsonObject d"
    by blast
  obtain r s' where cb: "callback d msg s = (r, s')"
    by (cases "callback d msg s")
  show ?thesis
  proof (cases r)
    case (Inl e)
    with d cb show ?thesis
      by (simp add: consume_message_object consume_loop_messages)
  next
    case (Inr should_ack)
    with d cb show ?thesis
      by (simp add: consume_message_object consume_loop_messages)
  qed
next
  case False
  then have none: "\<forall>d. pm_data msg \<noteq> JsonObject d"
    by blast
  from none have "consume_message callback acknowledge_ok msg s = (s, NegativeAcknowledge)"
    by (rule consume_message_undecoded)
  with none show ?thesis
    by (simp add: consume_loop_messages)
qed

theorem consume_acknowledgement_witness:
  "consume_message silent_callback (\<lambda>m. True) turn_message 0 = (1, Acknowledge)
   \<and> consume_message zero_callback (\<lambda>m. True) turn_message 0 = (1, Acknowledge)
   \<and> consume_message refusing_callback (\<lambda>m. True) turn_message 0 = (1, NegativeAcknowledge)
   \<and> consume_message raising_callback (\<lambda>m. True) turn_message 0 = (1, NegativeAcknowledge)
   \<and> consume_message silent_callback (\<lambda>m. False) turn_message 0 = (1, NegativeAcknowledge)
   \<and> consume_message silent_callback (\<lambda>m. True) garbled_message 0 = (0, NegativeAcknowledge)
   \<and> snd (consume_loop silent_callback (\<lambda>m. True) [garbled_message, turn_message] 0)
        = [(garbled_message, NegativeAcknowledge), (turn_message, Acknowledge)]"
proof -
  have obj: "pm_data turn_message = JsonObject [''event_type'' \<mapsto> JStr ''turn_completed'']"
    by (simp add: turn_message_def)
  have bad: "\<forall>d. pm_data garbled_message \<noteq> JsonObject d"
    by (simp add: garbled_message_def)
  have a: "consume_message silent_callback (\<lambda>m. True) turn_message 0 = (1, Acknowledge)"
    and b: "consume_message zero_callback (\<lambda>m. True) turn_message 0 = (1, Acknowledge)"
    and c: "consume_message refusing_callback (\<lambda>m. True) turn_message 0 = (1, NegativeAcknowledge)"
    and d: "consume_message raising_callback (\<lambda>m. True) turn_message 0 = (1, NegativeAcknowledge)"
    and e: "consume_message silent_callback (\<lambda>m. False) turn_message 0 = (1, NegativeAcknowledge)"
    by (simp_all add: consume_message_object [OF obj] silent_callback_def zero_callback_def
        refusing_callback_def raising_callback_def)
  note inst = consume_acknowledgement [of silent_callback "\<lambda>m. True" garbled_message 0
      "[garbled_message, turn_message]"]
  from inst bad have f: "consume_message silent_callback (\<lambda>m. True) garbled_message 0
                           = (0, NegativeAcknowledge)"
    by (metis prod.collapse)
  from a f have g: "snd (consume_loop silent_callback (\<lambda>m. True) [garbled_message, turn_message] 0)
        = [(garbled_message, NegativeAcknowledge), (turn_message, Acknowledge)]"
    by simp
  from a b c d e f g show ?thesis
    by blast
qed

text \<open>
  The claim as stated fails for a message whose bytes are not JSON: it is negatively
  acknowledged although the handler, which would return \<open>True\<close>, is never called.
\<close>

theorem consume_undecoded_counterexample:
  "consume_message (\<lambda>d msg calls. (Inr (PyBool True), calls + 1)) (\<lambda>m. True) garbled_message (0 :: nat)
     = (0, NegativeAcknowledge)
   \<and> pm_data garbled_message = NotJson"
  by (simp add: consume_message_def garbled_message_def)

end
